theory Spec2Isabelle
  imports Complex_Main
begin

section \<open>Error values (lib/supabase/errors.ts)\<close>

text \<open>
  The enum \<^verbatim>\<open>SupabaseErrorType\<close> and the class \<^verbatim>\<open>SupabaseError\<close>.
  A thrown JavaScript value is duck-typed by \<^verbatim>\<open>transformError\<close>; the fields it
  inspects are collected in \<open>raw_error\<close>. An absent \<^verbatim>\<open>name\<close>, \<^verbatim>\<open>code\<close> or
  \<^verbatim>\<open>details\<close> is the empty string: the code only compares them with non-empty
  literals and tests their truthiness, which gives the same answer for \<^verbatim>\<open>undefined\<close>
  and for \<^verbatim>\<open>''\<close>. The message is read without \<^verbatim>\<open>?.\<close> in two places
  (\<^verbatim>\<open>error.message.includes\<close>), where its absence is a \<^verbatim>\<open>TypeError\<close>: an absent
  message is \<open>None\<close>, and a message that is present is a string. The prototype chain is \<open>js_class\<close>: \<^verbatim>\<open>instanceof Error\<close> holds for
  \<open>ErrorClass\<close> and \<open>TypeErrorClass\<close>, \<^verbatim>\<open>instanceof TypeError\<close> for
  \<open>TypeErrorClass\<close> only.
\<close>

datatype SupabaseErrorType =
  AUTH_ERROR | NETWORK_ERROR | PERMISSION_ERROR | VALIDATION_ERROR | UNKNOWN_ERROR

datatype js_class = PlainObject | ErrorClass | TypeErrorClass

record raw_error =
  err_class :: js_class
  err_name :: string
  err_isAuthError :: bool
  err_code :: string
  err_message :: "string option"
  err_details :: string

text \<open>A thrown value: \<^verbatim>\<open>undefined\<close>/\<^verbatim>\<open>null\<close>, an instance of
  \<^verbatim>\<open>SupabaseError\<close> (message, type, originalError), or any other object.\<close>

datatype js_error =
    Undefined
  | SupabaseErr string SupabaseErrorType js_error
  | Obj raw_error

text \<open>\<^verbatim>\<open>error?.message\<close>, \<^verbatim>\<open>error?.code\<close> and the \<^verbatim>\<open>type\<close> and
  \<^verbatim>\<open>originalError\<close> fields of a \<^verbatim>\<open>SupabaseError\<close>.\<close>

fun message_of :: "js_error \<Rightarrow> string option" where
  "message_of (SupabaseErr m t orig) = Some m"
| "message_of (Obj r) = err_message r"
| "message_of Undefined = None"

fun code_of :: "js_error \<Rightarrow> string" where
  "code_of (Obj r) = err_code r"
| "code_of _ = []"

fun se_type :: "js_error \<Rightarrow> SupabaseErrorType option" where
  "se_type (SupabaseErr m t orig) = Some t"
| "se_type _ = None"

fun se_original :: "js_error \<Rightarrow> js_error" where
  "se_original (SupabaseErr m t orig) = orig"
| "se_original _ = Undefined"

fun ERROR_MESSAGES :: "SupabaseErrorType \<Rightarrow> string" where
  "ERROR_MESSAGES AUTH_ERROR = ''Authentication failed. Please log in again.''"
| "ERROR_MESSAGES NETWORK_ERROR = ''Network error. Please check your connection.''"
| "ERROR_MESSAGES PERMISSION_ERROR = ''You don't have permission to perform this action.''"
| "ERROR_MESSAGES VALIDATION_ERROR = ''Invalid data. Please check your input.''"
| "ERROR_MESSAGES UNKNOWN_ERROR = ''An unexpected error occurred. Please try again.''"

text \<open>\<^verbatim>\<open>String.prototype.includes\<close>: \<open>str_includes s sub\<close> holds when \<open>sub\<close> occurs in
  \<open>s\<close> as a contiguous block. \<open>opt_includes\<close> is \<^verbatim>\<open>error?.message?.includes(sub)\<close>,
  which is \<^verbatim>\<open>undefined\<close>, so falsy, for an absent message.\<close>

fun starts_with :: "string \<Rightarrow> string \<Rightarrow> bool" where
  "starts_with s [] = True"
| "starts_with [] (c # cs) = False"
| "starts_with (d # ds) (c # cs) = (d = c \<and> starts_with ds cs)"

fun str_includes :: "string \<Rightarrow> string \<Rightarrow> bool" where
  "str_includes [] sub = (sub = [])"
| "str_includes (d # ds) sub = (starts_with (d # ds) sub \<or> str_includes ds sub)"

definition opt_includes :: "string option \<Rightarrow> string \<Rightarrow> bool" where
  "opt_includes m sub = (case m of None \<Rightarrow> False | Some s \<Rightarrow> str_includes s sub)"

text \<open>\<^verbatim>\<open>a || b\<close> and the truthiness of a string that may be absent: \<^verbatim>\<open>undefined\<close> and
  the empty string are falsy.\<close>

definition or_else :: "string option \<Rightarrow> string \<Rightarrow> string" where
  "or_else a b = (case a of None \<Rightarrow> b | Some s \<Rightarrow> if s = [] then b else s)"

definition truthy :: "string option \<Rightarrow> bool" where
  "truthy a = (case a of None \<Rightarrow> False | Some s \<Rightarrow> s \<noteq> [])"

text \<open>\<^verbatim>\<open>new Error(msg)\<close> and \<^verbatim>\<open>new TypeError(msg)\<close>, and the \<^verbatim>\<open>TypeError\<close> the
  engine throws for \<^verbatim>\<open>undefined.includes(...)\<close>.\<close>

definition new_Error :: "string \<Rightarrow> js_error" where
  "new_Error msg = Obj \<lparr>err_class = ErrorClass, err_name = ''Error'', err_isAuthError = False,
     err_code = [], err_message = Some msg, err_details = []\<rparr>"

definition new_TypeError :: "string \<Rightarrow> js_error" where
  "new_TypeError msg = Obj \<lparr>err_class = TypeErrorClass, err_name = ''TypeError'',
     err_isAuthError = False, err_code = [], err_message = Some msg, err_details = []\<rparr>"

definition cannot_read_includes :: js_error where
  "cannot_read_includes =
     new_TypeError ''Cannot read properties of undefined (reading 'includes')''"

text \<open>\<^verbatim>\<open>transformPostgrestError\<close> returns; \<^verbatim>\<open>transformAuthError\<close> and
  \<^verbatim>\<open>transformError\<close> return (\<open>Inr\<close>) or throw (\<open>Inl\<close>): the first
  \<^verbatim>\<open>error.message.includes\<close> of \<^verbatim>\<open>transformAuthError\<close>, and the one behind
  \<^verbatim>\<open>error instanceof TypeError\<close> in \<^verbatim>\<open>transformError\<close>, throw when the message is
  absent.\<close>

definition transformPostgrestError :: "raw_error \<Rightarrow> js_error" where
  "transformPostgrestError error =
     (if err_code error = ''PGRST301''
      then SupabaseErr (ERROR_MESSAGES PERMISSION_ERROR) PERMISSION_ERROR (Obj error)
      else if err_code error = ''23505''
      then SupabaseErr ''This record already exists.'' VALIDATION_ERROR (Obj error)
      else if err_code error = ''23503''
      then SupabaseErr ''Invalid reference. The related record does not exist.''
             VALIDATION_ERROR (Obj error)
      else SupabaseErr (or_else (err_message error) (ERROR_MESSAGES UNKNOWN_ERROR))
             UNKNOWN_ERROR (Obj error))"

definition transformAuthError :: "raw_error \<Rightarrow> js_error + js_error" where
  "transformAuthError error =
     (case err_message error of
        None \<Rightarrow> Inl cannot_read_includes
      | Some message \<Rightarrow>
          Inr (if str_includes message ''Invalid login credentials''
               then SupabaseErr ''Invalid email or password.'' AUTH_ERROR (Obj error)
               else if str_includes message ''Email not confirmed''
               then SupabaseErr ''Please confirm your email address before logging in.''
                      AUTH_ERROR (Obj error)
               else if str_includes message ''User already registered''
               then SupabaseErr ''An account with this email already exists.''
                      VALIDATION_ERROR (Obj error)
               else SupabaseErr (or_else (Some message) (ERROR_MESSAGES AUTH_ERROR))
                      AUTH_ERROR (Obj error)))"

fun transformError :: "js_error \<Rightarrow> js_error + js_error" where
  "transformError (SupabaseErr m t orig) = Inr (SupabaseErr m t orig)"
| "transformError Undefined =
     Inr (SupabaseErr (ERROR_MESSAGES UNKNOWN_ERROR) UNKNOWN_ERROR Undefined)"
| "transformError (Obj error) =
     (if err_name error = ''AuthError'' \<or> err_isAuthError error
      then transformAuthError error
      else if err_code error \<noteq> [] \<and> truthy (err_message error) \<and> err_details error \<noteq> []
      then Inr (transformPostgrestError error)
      else if err_class error = TypeErrorClass \<and> err_message error = None
      then Inl cannot_read_includes
      else if err_class error = TypeErrorClass \<and> opt_includes (err_message error) ''fetch''
      then Inr (SupabaseErr (ERROR_MESSAGES NETWORK_ERROR) NETWORK_ERROR (Obj error))
      else if opt_includes (err_message error) ''NetworkError''
              \<or> opt_includes (err_message error) ''Failed to fetch''
      then Inr (SupabaseErr (ERROR_MESSAGES NETWORK_ERROR) NETWORK_ERROR (Obj error))
      else Inr (SupabaseErr (or_else (err_message error) (ERROR_MESSAGES UNKNOWN_ERROR))
                  UNKNOWN_ERROR (Obj error)))"

text \<open>The callers of \<^verbatim>\<open>transformError\<close> do not catch: they throw what it throws.\<close>

definition getErrorMessage :: "js_error \<Rightarrow> js_error + string option" where
  "getErrorMessage error =
     (case transformError error of
        Inl thrown \<Rightarrow> Inl thrown
      | Inr supabaseError \<Rightarrow> Inr (message_of supabaseError))"

definition isNetworkError :: "js_error \<Rightarrow> js_error + bool" where
  "isNetworkError error =
     (case transformError error of
        Inl thrown \<Rightarrow> Inl thrown
      | Inr supabaseError \<Rightarrow> Inr (se_type supabaseError = Some NETWORK_ERROR))"

definition isAuthError :: "js_error \<Rightarrow> js_error + bool" where
  "isAuthError error =
     (case transformError error of
        Inl thrown \<Rightarrow> Inl thrown
      | Inr supabaseError \<Rightarrow> Inr (se_type supabaseError = Some AUTH_ERROR))"

text \<open>\<^verbatim>\<open>logError(error, context)\<close> classifies the error and writes one entry to the
  console: the entry, or what \<^verbatim>\<open>transformError\<close> threw.\<close>

definition logError :: "js_error \<Rightarrow> 'c \<Rightarrow> js_error + (js_error \<times> 'c)" where
  "logError error context =
     (case transformError error of
        Inl thrown \<Rightarrow> Inl thrown
      | Inr supabaseError \<Rightarrow> Inr (error, context))"

text \<open>\<^verbatim>\<open>err instanceof Error\<close>; \<^verbatim>\<open>SupabaseError\<close> extends \<^verbatim>\<open>Error\<close>.\<close>

fun instanceof_Error :: "js_error \<Rightarrow> bool" where
  "instanceof_Error Undefined = False"
| "instanceof_Error (SupabaseErr m t orig) = True"
| "instanceof_Error (Obj r) = (err_class r \<noteq> PlainObject)"

section \<open>Backoff policy (lib/supabase/retry.ts)\<close>

text \<open>
  JavaScript numbers are IEEE-754 doubles: an arithmetic operation returns the double
  nearest to the exact result, a tie going to the even significand. A finite double is
  a real number; \<open>round_double x\<close> is the double nearest to the real \<open>x\<close>, that is
  \<open>x\<close> rounded to a multiple of \<open>ulp x\<close>, where \<open>ulp x = 2 powi (e - 52)\<close> for the
  exponent \<open>e\<close> with \<open>2 powi e \<le> \<bar>x\<bar> < 2 powi (e + 1)\<close>, not below \<open>- 1022\<close>
  (the subnormal range). A result of magnitude \<open>2 ^ 1024\<close> or more is \<^verbatim>\<open>Infinity\<close> in
  the code; such results are outside the model.
\<close>

definition round_half_even :: "real \<Rightarrow> int" where
  "round_half_even y =
     (let n = \<lfloor>y\<rfloor>; d = y - of_int n
      in if d < 1 / 2 then n else if 1 / 2 < d then n + 1 else if even n then n else n + 1)"

fun exponent_search :: "nat \<Rightarrow> real \<Rightarrow> int" where
  "exponent_search 0 x = - 1022"
| "exponent_search (Suc n) x =
     (if 2 powi (int (Suc n) - 1022) \<le> x then int (Suc n) - 1022 else exponent_search n x)"

definition exponent_of :: "real \<Rightarrow> int" where
  "exponent_of x = exponent_search 2045 \<bar>x\<bar>"

definition ulp :: "real \<Rightarrow> real" where
  "ulp x = 2 powi (exponent_of x - 52)"

definition round_double :: "real \<Rightarrow> real" where
  "round_double x = of_int (round_half_even (x / ulp x)) * ulp x"

text \<open>
  \<^verbatim>\<open>calculateBackoffDelay(attempt, baseDelay, maxDelay)\<close>. The value drawn from
  \<^verbatim>\<open>Math.random()\<close> is the extra argument \<open>rnd\<close>, a double in \<open>[0, 1)\<close>. Each of
  \<^verbatim>\<open>Math.pow\<close>, \<^verbatim>\<open>*\<close> and \<^verbatim>\<open>+\<close> rounds its result; \<^verbatim>\<open>Math.min\<close> does not.
\<close>

definition calculateBackoffDelay :: "nat \<Rightarrow> real \<Rightarrow> real \<Rightarrow> real \<Rightarrow> real" where
  "calculateBackoffDelay attempt baseDelay maxDelay rnd =
     (let exponentialDelay = round_double (baseDelay * round_double (2 ^ attempt));
          jitter = round_double (0.5 + rnd);
          delayWithJitter = round_double (exponentialDelay * jitter)
      in min delayWithJitter maxDelay)"

section \<open>Remote operation wrapper (lib/supabase/retry.ts)\<close>

text \<open>
  An asynchronous operation is a function on the state of the world: it returns what the
  promise settles to (\<open>Inl\<close> the thrown value) and the world afterwards. The wrappers
  also return what they did, in order: \<open>Called\<close> for each invocation of the operation,
  \<open>Logged\<close> for each entry \<^verbatim>\<open>logError\<close> wrote, \<open>OnRetry\<close> for the \<^verbatim>\<open>onRetry\<close>
  callback and \<open>Slept\<close> for each \<^verbatim>\<open>setTimeout\<close> wait.
\<close>

datatype log_context =
    Operation_failed_after nat
  | Retry_attempt nat nat
  | Ctx string

datatype event =
    Called
  | Logged js_error log_context
  | OnRetry js_error nat
  | Slept real

definition attempts :: "event list \<Rightarrow> nat" where
  "attempts tr = length (filter (\<lambda>ev. ev = Called) tr)"

text \<open>A retry predicate returns a boolean or throws, as \<^verbatim>\<open>isNetworkError\<close> does.\<close>

record RetryOptions =
  opt_maxRetries :: "nat option"
  opt_baseDelay :: "real option"
  opt_maxDelay :: "real option"
  opt_shouldRetry :: "(js_error \<Rightarrow> js_error + bool) option"

record retry_config =
  cfg_maxRetries :: nat
  cfg_baseDelay :: real
  cfg_maxDelay :: real
  cfg_shouldRetry :: "js_error \<Rightarrow> js_error + bool"

definition DEFAULT_RETRY_OPTIONS :: retry_config where
  "DEFAULT_RETRY_OPTIONS =
     \<lparr>cfg_maxRetries = 3, cfg_baseDelay = 1000, cfg_maxDelay = 10000,
      cfg_shouldRetry = (\<lambda>error. isNetworkError error)\<rparr>"

text \<open>\<^verbatim>\<open>{ ...DEFAULT_RETRY_OPTIONS, ...options }\<close>\<close>

definition merge_options :: "RetryOptions \<Rightarrow> retry_config" where
  "merge_options options =
     \<lparr>cfg_maxRetries = (case opt_maxRetries options of Some n \<Rightarrow> n
                      | None \<Rightarrow> cfg_maxRetries DEFAULT_RETRY_OPTIONS),
      cfg_baseDelay = (case opt_baseDelay options of Some d \<Rightarrow> d
                      | None \<Rightarrow> cfg_baseDelay DEFAULT_RETRY_OPTIONS),
      cfg_maxDelay = (case opt_maxDelay options of Some d \<Rightarrow> d
                      | None \<Rightarrow> cfg_maxDelay DEFAULT_RETRY_OPTIONS),
      cfg_shouldRetry = (case opt_shouldRetry options of Some p \<Rightarrow> p
                      | None \<Rightarrow> cfg_shouldRetry DEFAULT_RETRY_OPTIONS)\<rparr>"

text \<open>
  The loop of \<^verbatim>\<open>withRetry\<close>, from \<^verbatim>\<open>attempt\<close> on. \<open>rnd k\<close> is the value
  \<^verbatim>\<open>Math.random()\<close> returns in iteration \<open>k\<close>. What the predicate or \<^verbatim>\<open>logError\<close>
  throws inside the \<^verbatim>\<open>catch\<close> block leaves the loop and rejects the promise. The last
  branch is the \<^verbatim>\<open>throw lastError\<close> after the loop.
\<close>

function withRetry_loop ::
  "retry_config \<Rightarrow> (nat \<Rightarrow> real) \<Rightarrow> ('w \<Rightarrow> (js_error + 'a) \<times> 'w) \<Rightarrow> nat \<Rightarrow> js_error \<Rightarrow> 'w
     \<Rightarrow> (js_error + 'a) \<times> 'w \<times> event list" where
  "withRetry_loop config rnd operation attempt lastError w =
     (if attempt \<le> cfg_maxRetries config then
        (case operation w of
           (Inr v, w') \<Rightarrow> (Inr v, w', [Called])
         | (Inl error, w') \<Rightarrow>
             (case cfg_shouldRetry config error of
                Inl thrown \<Rightarrow> (Inl thrown, w', [Called])
              | Inr shouldRetry \<Rightarrow>
                  (if attempt = cfg_maxRetries config \<or> \<not> shouldRetry
                   then (case logError error (Operation_failed_after (attempt + 1)) of
                           Inl thrown \<Rightarrow> (Inl thrown, w', [Called])
                         | Inr (logged, context) \<Rightarrow>
                             (Inl error, w', [Called, Logged logged context]))
                   else (case logError error
                                (Retry_attempt (attempt + 1) (cfg_maxRetries config)) of
                           Inl thrown \<Rightarrow> (Inl thrown, w', [Called])
                         | Inr (logged, context) \<Rightarrow>
                             (case withRetry_loop config rnd operation (attempt + 1) error w' of
                                (r, w'', tr) \<Rightarrow>
                                  (r, w'',
                                   [Called, Logged logged context, OnRetry error (attempt + 1),
                                    Slept (calculateBackoffDelay attempt (cfg_baseDelay config)
                                             (cfg_maxDelay config) (rnd attempt))] @ tr))))))
      else (Inl lastError, w, []))"
  by pat_completeness auto
termination
  by (relation "measure (\<lambda>(config, rnd, operation, attempt, lastError, w).
                  Suc (cfg_maxRetries config) - attempt)") auto

declare withRetry_loop.simps [simp del]

definition withRetry ::
  "RetryOptions \<Rightarrow> (nat \<Rightarrow> real) \<Rightarrow> ('w \<Rightarrow> (js_error + 'a) \<times> 'w) \<Rightarrow> 'w
     \<Rightarrow> (js_error + 'a) \<times> 'w \<times> event list" where
  "withRetry options rnd operation w =
     withRetry_loop (merge_options options) rnd operation 0 Undefined w"

definition createRetryWrapper ::
  "RetryOptions \<Rightarrow> (nat \<Rightarrow> real) \<Rightarrow> ('w \<Rightarrow> (js_error + 'a) \<times> 'w) \<Rightarrow> 'w
     \<Rightarrow> (js_error + 'a) \<times> 'w \<times> event list" where
  "createRetryWrapper options = (\<lambda>rnd operation. withRetry options rnd operation)"

definition database_shouldRetry :: "js_error \<Rightarrow> js_error + bool" where
  "database_shouldRetry error =
     (case isNetworkError error of
        Inl thrown \<Rightarrow> Inl thrown
      | Inr network \<Rightarrow>
          Inr (if network then True
               else if code_of error = ''PGRST301'' \<or> code_of error = ''08000'' then True
               else False))"

definition withDatabaseRetry ::
  "(nat \<Rightarrow> real) \<Rightarrow> ('w \<Rightarrow> (js_error + 'a) \<times> 'w) \<Rightarrow> 'w
     \<Rightarrow> (js_error + 'a) \<times> 'w \<times> event list" where
  "withDatabaseRetry =
     createRetryWrapper \<lparr>opt_maxRetries = Some 3, opt_baseDelay = Some 1000,
       opt_maxDelay = Some 5000, opt_shouldRetry = Some database_shouldRetry\<rparr>"

definition withAuthRetry ::
  "(nat \<Rightarrow> real) \<Rightarrow> ('w \<Rightarrow> (js_error + 'a) \<times> 'w) \<Rightarrow> 'w
     \<Rightarrow> (js_error + 'a) \<times> 'w \<times> event list" where
  "withAuthRetry =
     createRetryWrapper \<lparr>opt_maxRetries = Some 2, opt_baseDelay = Some 1000,
       opt_maxDelay = Some 3000, opt_shouldRetry = Some (\<lambda>error. isNetworkError error)\<rparr>"

section \<open>The retry utility of the entity services\<close>

text \<open>
  \<^verbatim>\<open>lib/supabase/services/{transactions,categories,goals,chat}.ts\<close> each declare
  the same private \<^verbatim>\<open>withRetry(operation, maxRetries = 3, baseDelay = 1000)\<close> and the
  same \<^verbatim>\<open>handleError\<close>; none of them imports \<^verbatim>\<open>lib/supabase/retry.ts\<close>. Inside the
  loop \<^verbatim>\<open>i < maxRetries\<close> holds, so \<^verbatim>\<open>i === maxRetries - 1\<close> is \<open>i + 1 = maxRetries\<close>.
\<close>

function svc_withRetry_loop ::
  "('w \<Rightarrow> (js_error + 'a) \<times> 'w) \<Rightarrow> nat \<Rightarrow> real \<Rightarrow> nat \<Rightarrow> 'w
     \<Rightarrow> (js_error + 'a) \<times> 'w \<times> event list" where
  "svc_withRetry_loop operation maxRetries baseDelay i w =
     (if i < maxRetries then
        (case operation w of
           (Inr v, w') \<Rightarrow> (Inr v, w', [Called])
         | (Inl error, w') \<Rightarrow>
             (if i + 1 = maxRetries then (Inl error, w', [Called])
              else (case svc_withRetry_loop operation maxRetries baseDelay (i + 1) w' of
                      (r, w'', tr) \<Rightarrow>
                        (r, w'',
                         [Called, Slept (round_double (baseDelay * round_double (2 ^ i)))]
                         @ tr))))
      else (Inl (new_Error ''Max retries exceeded''), w, []))"
  by pat_completeness auto
termination
  by (relation "measure (\<lambda>(operation, maxRetries, baseDelay, i, w). maxRetries - i)") auto

declare svc_withRetry_loop.simps [simp del]

definition svc_withRetry ::
  "('w \<Rightarrow> (js_error + 'a) \<times> 'w) \<Rightarrow> nat \<Rightarrow> real \<Rightarrow> 'w
     \<Rightarrow> (js_error + 'a) \<times> 'w \<times> event list" where
  "svc_withRetry operation maxRetries baseDelay w =
     svc_withRetry_loop operation maxRetries baseDelay 0 w"

section \<open>Entities (types/index.ts)\<close>

record Transaction =
  tx_id :: string
  tx_user_id :: string
  tx_category_id :: "string option"
  tx_description :: string
  tx_amount :: real
  tx_category_name :: string
  tx_created_at :: string

record SpendingCategory =
  cat_id :: string
  cat_user_id :: string
  cat_name :: string
  cat_value :: real
  cat_budget :: real
  cat_color :: string
  cat_created_at :: string
  cat_updated_at :: string

record FinancialGoal =
  goal_id :: string
  goal_user_id :: string
  goal_title :: string
  goal_target_amount :: real
  goal_current_amount :: real
  goal_months_remaining :: real
  goal_created_at :: string
  goal_updated_at :: string

text \<open>\<^verbatim>\<open>Omit<Transaction, 'id' | 'user_id' | 'created_at'>\<close>, the argument of the hook, and
  the same with \<^verbatim>\<open>user_id\<close>, the argument of \<^verbatim>\<open>createTransaction\<close>.\<close>

record TransactionInput =
  in_category_id :: "string option"
  in_description :: string
  in_amount :: real
  in_category_name :: string

record NewTransaction = TransactionInput +
  in_user_id :: string

section \<open>The remote store behind the transaction service\<close>

text \<open>
  The Supabase client is outside the repository. It is modelled by the state it keeps
  and by the \<^verbatim>\<open>{ data, error }\<close> pair each query settles to: the two tables the
  transaction service touches, keyed by primary key; \<open>faults\<close>, which says for the
  \<open>n\<close>-th request the store receives whether it fails and with which error;
  \<open>requests\<close>, the number of requests received so far; \<open>new_id\<close>, the key the store
  gives the row inserted by request \<open>n\<close>; \<open>now\<close>, the time stamp. \<open>console\<close> is
  what \<^verbatim>\<open>logDatabaseError\<close> has written, oldest first.

  The \<^verbatim>\<open>error\<close> of a query is a \<^verbatim>\<open>PostgrestError\<close>, the type \<^verbatim>\<open>errors.ts\<close> imports:
  an object with the four string fields \<^verbatim>\<open>message\<close>, \<^verbatim>\<open>details\<close>, \<^verbatim>\<open>hint\<close> and
  \<^verbatim>\<open>code\<close>. \<open>raw_of\<close> gives the fields \<^verbatim>\<open>transformError\<close> reads of it and \<open>js_of\<close>
  the value thrown by \<^verbatim>\<open>throw error\<close>.
\<close>

record PostgrestError =
  pg_message :: string
  pg_details :: string
  pg_hint :: string
  pg_code :: string

definition raw_of :: "PostgrestError \<Rightarrow> raw_error" where
  "raw_of e = \<lparr>err_class = PlainObject, err_name = [], err_isAuthError = False,
     err_code = pg_code e, err_message = Some (pg_message e), err_details = pg_details e\<rparr>"

definition js_of :: "PostgrestError \<Rightarrow> js_error" where
  "js_of e = Obj (raw_of e)"

record world =
  transactions :: "string \<rightharpoonup> Transaction"
  spending_categories :: "string \<rightharpoonup> SpendingCategory"
  faults :: "nat \<Rightarrow> PostgrestError option"
  requests :: nat
  new_id :: "nat \<Rightarrow> string"
  now :: string
  console :: "(js_error \<times> string) list"

definition request :: "world \<Rightarrow> PostgrestError option \<times> world" where
  "request w = (faults w (requests w), w\<lparr>requests := Suc (requests w)\<rparr>)"

text \<open>The error of \<^verbatim>\<open>.single()\<close> when the query does not match exactly one row.\<close>

definition single_error :: PostgrestError where
  "single_error =
     \<lparr>pg_message = ''JSON object requested, multiple (or no) rows returned'',
      pg_details = ''The result contains 0 rows'', pg_hint = [], pg_code = ''PGRST116''\<rparr>"

text \<open>\<^verbatim>\<open>from('transactions').insert({...}).select().single()\<close>\<close>

definition insert_transaction ::
  "NewTransaction \<Rightarrow> world \<Rightarrow> (Transaction option \<times> PostgrestError option) \<times> world" where
  "insert_transaction d w =
     (case request w of
        (Some e, w') \<Rightarrow> ((None, Some e), w')
      | (None, w') \<Rightarrow>
          (let row = \<lparr>tx_id = new_id w (requests w), tx_user_id = in_user_id d,
                       tx_category_id = in_category_id d, tx_description = in_description d,
                       tx_amount = in_amount d, tx_category_name = in_category_name d,
                       tx_created_at = now w\<rparr>
           in ((Some row, None), w'\<lparr>transactions := (transactions w')(tx_id row \<mapsto> row)\<rparr>)))"

text \<open>\<^verbatim>\<open>from('transactions').select(...).eq('id', id).single()\<close>\<close>

definition select_transaction ::
  "string \<Rightarrow> world \<Rightarrow> (Transaction option \<times> PostgrestError option) \<times> world" where
  "select_transaction ident w =
     (case request w of
        (Some e, w') \<Rightarrow> ((None, Some e), w')
      | (None, w') \<Rightarrow>
          (case transactions w' ident of
             None \<Rightarrow> ((None, Some single_error), w')
           | Some t \<Rightarrow> ((Some t, None), w')))"

text \<open>\<^verbatim>\<open>from('transactions').delete().eq('id', id)\<close>\<close>

definition delete_transaction :: "string \<Rightarrow> world \<Rightarrow> PostgrestError option \<times> world" where
  "delete_transaction ident w =
     (case request w of
        (Some e, w') \<Rightarrow> (Some e, w')
      | (None, w') \<Rightarrow> (None, w'\<lparr>transactions := (transactions w')(ident := None)\<rparr>))"

text \<open>\<^verbatim>\<open>from('spending_categories').select('value').eq('id', id).single()\<close>\<close>

definition select_category ::
  "string \<Rightarrow> world \<Rightarrow> (SpendingCategory option \<times> PostgrestError option) \<times> world" where
  "select_category ident w =
     (case request w of
        (Some e, w') \<Rightarrow> ((None, Some e), w')
      | (None, w') \<Rightarrow>
          (case spending_categories w' ident of
             None \<Rightarrow> ((None, Some single_error), w')
           | Some c \<Rightarrow> ((Some c, None), w')))"

text \<open>\<^verbatim>\<open>from('spending_categories').update({ value, updated_at }).eq('id', id)\<close>:
  no row matching is not an error.\<close>

definition update_category_value ::
  "string \<Rightarrow> real \<Rightarrow> world \<Rightarrow> PostgrestError option \<times> world" where
  "update_category_value ident newValue w =
     (case request w of
        (Some e, w') \<Rightarrow> (Some e, w')
      | (None, w') \<Rightarrow>
          (case spending_categories w' ident of
             None \<Rightarrow> (None, w')
           | Some c \<Rightarrow>
               (None, w'\<lparr>spending_categories := (spending_categories w')
                  (ident \<mapsto> c\<lparr>cat_value := newValue, cat_updated_at := now w'\<rparr>)\<rparr>)))"

text \<open>\<^verbatim>\<open>logDatabaseError(error, operation, ...)\<close> calls \<^verbatim>\<open>logError\<close>: it appends the
  entry to the console and returns the world, or throws what \<^verbatim>\<open>transformError\<close>
  throws.\<close>

definition logDatabaseError :: "js_error \<Rightarrow> string \<Rightarrow> world \<Rightarrow> js_error + world" where
  "logDatabaseError error operation w =
     (case logError error operation of
        Inl thrown \<Rightarrow> Inl thrown
      | Inr entry \<Rightarrow> Inr (w\<lparr>console := console w @ [entry]\<rparr>))"

text \<open>\<^verbatim>\<open>x || 0\<close> on a number.\<close>

definition or_zero :: "real \<Rightarrow> real" where
  "or_zero x = (if x = 0 then 0 else x)"

section \<open>Transaction service (lib/supabase/services/transactions.ts)\<close>

text \<open>\<^verbatim>\<open>handleError\<close> logs and throws; the model returns the value thrown and the world
  afterwards. What \<^verbatim>\<open>logDatabaseError\<close> throws is thrown before the message is built;
  reading \<^verbatim>\<open>error.message\<close> of \<^verbatim>\<open>undefined\<close> is a \<^verbatim>\<open>TypeError\<close>.\<close>

definition handleError :: "js_error \<Rightarrow> string \<Rightarrow> world \<Rightarrow> js_error \<times> world" where
  "handleError error operation w =
     (case logDatabaseError error operation w of
        Inl thrown \<Rightarrow> (thrown, w)
      | Inr w' \<Rightarrow>
          (case error of
             Undefined \<Rightarrow>
               (new_TypeError ''Cannot read properties of undefined (reading 'message')'', w')
           | _ \<Rightarrow>
               (new_Error (''Failed to '' @ operation @ '': ''
                           @ or_else (message_of error) ''Unknown error''), w')))"

text \<open>The body passed to \<^verbatim>\<open>withRetry\<close> by \<^verbatim>\<open>createTransaction\<close>. A
  \<^verbatim>\<open>category_id\<close> is truthy when it is a non-empty string. What \<^verbatim>\<open>logDatabaseError\<close>
  throws rejects the body.\<close>

definition createTransaction_op ::
  "NewTransaction \<Rightarrow> world \<Rightarrow> (js_error + Transaction option) \<times> world" where
  "createTransaction_op transaction w =
     (case insert_transaction transaction w of
        ((newTransaction, Some transactionError), w1) \<Rightarrow> (Inl (js_of transactionError), w1)
      | ((newTransaction, None), w1) \<Rightarrow>
          (case in_category_id transaction of
             None \<Rightarrow> (Inr newTransaction, w1)
           | Some category_id \<Rightarrow>
               (if category_id = [] then (Inr newTransaction, w1)
                else
                  (case select_category category_id w1 of
                     ((category, Some categoryFetchError), w2) \<Rightarrow>
                       (case logDatabaseError (js_of categoryFetchError)
                               ''fetch category for transaction update'' w2 of
                          Inl thrown \<Rightarrow> (Inl thrown, w2)
                        | Inr w3 \<Rightarrow> (Inr newTransaction, w3))
                   | ((None, None), w2) \<Rightarrow> (Inr newTransaction, w2)
                   | ((Some category, None), w2) \<Rightarrow>
                       (let newValue = or_zero (cat_value category) + in_amount transaction
                        in (case update_category_value category_id newValue w2 of
                              (Some categoryUpdateError, w3) \<Rightarrow>
                                (case logDatabaseError (js_of categoryUpdateError)
                                        ''update category value after transaction'' w3 of
                                   Inl thrown \<Rightarrow> (Inl thrown, w3)
                                 | Inr w4 \<Rightarrow> (Inr newTransaction, w4))
                            | (None, w3) \<Rightarrow> (Inr newTransaction, w3)))))))"

definition createTransaction ::
  "NewTransaction \<Rightarrow> world \<Rightarrow> (js_error + Transaction option) \<times> world \<times> event list" where
  "createTransaction transaction w =
     (case svc_withRetry (createTransaction_op transaction) 3 1000 w of
        (Inr v, w', tr) \<Rightarrow> (Inr v, w', tr)
      | (Inl error, w', tr) \<Rightarrow>
          (case handleError error ''create transaction'' w' of
             (thrown, w'') \<Rightarrow> (Inl thrown, w'', tr)))"

text \<open>The body passed to \<^verbatim>\<open>withRetry\<close> by \<^verbatim>\<open>deleteTransaction\<close>.\<close>

definition deleteTransaction_op :: "string \<Rightarrow> world \<Rightarrow> (js_error + unit) \<times> world" where
  "deleteTransaction_op ident w =
     (case select_transaction ident w of
        ((transaction, Some fetchError), w1) \<Rightarrow> (Inl (js_of fetchError), w1)
      | ((transaction, None), w1) \<Rightarrow>
          (case delete_transaction ident w1 of
             (Some deleteError, w2) \<Rightarrow> (Inl (js_of deleteError), w2)
           | (None, w2) \<Rightarrow>
               (case transaction of
                  None \<Rightarrow> (Inr (), w2)
                | Some t \<Rightarrow>
                    (case tx_category_id t of
                       None \<Rightarrow> (Inr (), w2)
                     | Some category_id \<Rightarrow>
                         (if category_id = [] then (Inr (), w2)
                          else
                            (case select_category category_id w2 of
                               ((category, Some categoryFetchError), w3) \<Rightarrow>
                                 (case logDatabaseError (js_of categoryFetchError)
                                         ''fetch category for transaction deletion'' w3 of
                                    Inl thrown \<Rightarrow> (Inl thrown, w3)
                                  | Inr w4 \<Rightarrow> (Inr (), w4))
                             | ((None, None), w3) \<Rightarrow> (Inr (), w3)
                             | ((Some category, None), w3) \<Rightarrow>
                                 (let newValue =
                                        max 0 (or_zero (cat_value category) - tx_amount t)
                                  in (case update_category_value category_id newValue w3 of
                                        (Some categoryUpdateError, w4) \<Rightarrow>
                                          (case logDatabaseError (js_of categoryUpdateError)
                                                  ''update category value after transaction deletion''
                                                  w4 of
                                             Inl thrown \<Rightarrow> (Inl thrown, w4)
                                           | Inr w5 \<Rightarrow> (Inr (), w5))
                                      | (None, w4) \<Rightarrow> (Inr (), w4)))))))))"

definition deleteTransaction ::
  "string \<Rightarrow> world \<Rightarrow> (js_error + unit) \<times> world \<times> event list" where
  "deleteTransaction ident w =
     (case svc_withRetry (deleteTransaction_op ident) 3 1000 w of
        (Inr v, w', tr) \<Rightarrow> (Inr v, w', tr)
      | (Inl error, w', tr) \<Rightarrow>
          (case handleError error ''delete transaction'' w' of
             (thrown, w'') \<Rightarrow> (Inl thrown, w'', tr)))"

section \<open>Mutation hooks (hooks/useTransactions.ts, useCategories.ts, useGoals.ts)\<close>

text \<open>
  A mutation of a hook runs on three pieces of state: the consumer's local view \<open>'v\<close>,
  which only the callbacks the consumer passed can change; the world \<open>'w\<close> behind the
  entity service, which only the service call \<open>svc\<close> can change; and the hook's own
  \<^verbatim>\<open>useState\<close> pair (\<open>busy\<close> for \<^verbatim>\<open>adding\<close>/\<^verbatim>\<open>updating\<close>/\<^verbatim>\<open>deleting\<close>,
  \<open>last_error\<close> for \<^verbatim>\<open>error\<close>). Each mutation returns what its promise settles to,
  the state afterwards, and what it did, in order.

  \<open>hook_env\<close> is what the hook reads from its surroundings: \<^verbatim>\<open>user?.id\<close>,
  \<^verbatim>\<open>navigator\<close> (\<open>None\<close> when \<^verbatim>\<open>typeof navigator === 'undefined'\<close>, otherwise
  \<^verbatim>\<open>navigator.onLine\<close>), \<^verbatim>\<open>Date.now()\<close> in decimal and
  \<^verbatim>\<open>new Date().toISOString()\<close>.
\<close>

record mutation_state =
  busy :: bool
  last_error :: "string option"

datatype hook_event = OptimisticPatch | RemoteCall | Rollback

record hook_env =
  user :: "string option"
  navigator_onLine :: "bool option"
  Date_now :: string
  Date_iso :: string

definition offline :: "hook_env \<Rightarrow> bool" where
  "offline env = (navigator_onLine env = Some False)"

text \<open>\<^verbatim>\<open>err instanceof Error ? err.message : fallback\<close>, the argument of
  \<^verbatim>\<open>setError\<close>: \<open>None\<close> when the message read is absent.\<close>

definition hook_error_message :: "js_error \<Rightarrow> string \<Rightarrow> string option" where
  "hook_error_message err fallback =
     (if instanceof_Error err then message_of err else Some fallback)"

text \<open>\<^verbatim>\<open>if (callback) callback(...)\<close>: the view afterwards and the event recorded.\<close>

definition call_if :: "('v \<Rightarrow> 'v) option \<Rightarrow> hook_event \<Rightarrow> 'v \<Rightarrow> 'v \<times> hook_event list" where
  "call_if callback ev v = (case callback of None \<Rightarrow> (v, []) | Some f \<Rightarrow> (f v, [ev]))"

definition addTransaction ::
  "hook_env \<Rightarrow> (Transaction \<Rightarrow> 'v \<Rightarrow> 'v) option \<Rightarrow> (string \<Rightarrow> 'v \<Rightarrow> 'v) option
     \<Rightarrow> (NewTransaction \<Rightarrow> 'w \<Rightarrow> (js_error + Transaction option) \<times> 'w)
     \<Rightarrow> TransactionInput \<Rightarrow> 'v \<times> 'w \<times> mutation_state
     \<Rightarrow> (js_error + Transaction option) \<times> ('v \<times> 'w \<times> mutation_state) \<times> hook_event list" where
  "addTransaction env onOptimisticAdd onRollback svc transaction s =
     (case s of (v, w, st) \<Rightarrow>
        (case user env of
           None \<Rightarrow> (Inl (new_Error ''User not authenticated''), s, [])
         | Some uid \<Rightarrow>
             if uid = [] then (Inl (new_Error ''User not authenticated''), s, [])
             else if offline env
             then (Inl (new_Error
                     ''You are offline. Please connect to the internet to add transactions.''),
                   s, [])
             else
               (let st1 = st\<lparr>busy := True, last_error := None\<rparr>;
                    optimisticTransaction =
                      \<lparr>tx_id = ''temp-'' @ Date_now env, tx_user_id = uid,
                       tx_category_id = in_category_id transaction,
                       tx_description = in_description transaction,
                       tx_amount = in_amount transaction,
                       tx_category_name = in_category_name transaction,
                       tx_created_at = Date_iso env\<rparr>;
                    (v1, ev1) = call_if (map_option (\<lambda>f. f optimisticTransaction) onOptimisticAdd)
                                  OptimisticPatch v
                in (case svc \<lparr>in_category_id = in_category_id transaction,
                               in_description = in_description transaction,
                               in_amount = in_amount transaction,
                               in_category_name = in_category_name transaction,
                               in_user_id = uid\<rparr> w of
                      (Inr newTransaction, w1) \<Rightarrow>
                        (Inr newTransaction, (v1, w1, st1\<lparr>busy := False\<rparr>), ev1 @ [RemoteCall])
                    | (Inl err, w1) \<Rightarrow>
                        (let (v2, ev2) =
                               call_if (map_option (\<lambda>g. g (tx_id optimisticTransaction)) onRollback)
                                 Rollback v1
                         in (Inl err,
                             (v2, w1,
                              st1\<lparr>last_error :=
                                     hook_error_message err ''Failed to add transaction'',
                                   busy := False\<rparr>),
                             ev1 @ [RemoteCall] @ ev2))))))"

text \<open>\<^verbatim>\<open>useDeleteTransaction\<close> takes no callbacks and does not read \<^verbatim>\<open>navigator\<close>.\<close>

definition deleteTransactionMutation ::
  "hook_env \<Rightarrow> (string \<Rightarrow> 'w \<Rightarrow> (js_error + unit) \<times> 'w) \<Rightarrow> string
     \<Rightarrow> 'v \<times> 'w \<times> mutation_state
     \<Rightarrow> (js_error + unit) \<times> ('v \<times> 'w \<times> mutation_state) \<times> hook_event list" where
  "deleteTransactionMutation env svc ident s =
     (case s of (v, w, st) \<Rightarrow>
        (let st1 = st\<lparr>busy := True, last_error := None\<rparr>
         in (case svc ident w of
               (Inr u, w1) \<Rightarrow> (Inr (), (v, w1, st1\<lparr>busy := False\<rparr>), [RemoteCall])
             | (Inl err, w1) \<Rightarrow>
                 (Inl err,
                  (v, w1,
                   st1\<lparr>last_error :=
                          hook_error_message err ''Failed to delete transaction'',
                        busy := False\<rparr>),
                  [RemoteCall]))))"

text \<open>\<^verbatim>\<open>Partial<Omit<SpendingCategory, 'id' | 'user_id' | 'created_at' | 'updated_at'>>\<close>
  and the same for \<^verbatim>\<open>FinancialGoal\<close>: \<open>None\<close> is a key that is absent.\<close>

record CategoryUpdates =
  up_name :: "string option"
  up_value :: "real option"
  up_budget :: "real option"
  up_color :: "string option"

record GoalUpdates =
  up_title :: "string option"
  up_target_amount :: "real option"
  up_current_amount :: "real option"
  up_months_remaining :: "real option"

definition updateCategoryMutation ::
  "hook_env \<Rightarrow> (string \<Rightarrow> CategoryUpdates \<Rightarrow> 'v \<Rightarrow> 'v) option
     \<Rightarrow> (string \<Rightarrow> CategoryUpdates \<Rightarrow> 'v \<Rightarrow> 'v) option
     \<Rightarrow> (string \<Rightarrow> CategoryUpdates \<Rightarrow> 'w \<Rightarrow> (js_error + 'a) \<times> 'w)
     \<Rightarrow> string \<Rightarrow> CategoryUpdates \<Rightarrow> 'v \<times> 'w \<times> mutation_state
     \<Rightarrow> (js_error + unit) \<times> ('v \<times> 'w \<times> mutation_state) \<times> hook_event list" where
  "updateCategoryMutation env onOptimisticUpdate onRollback svc ident updates s =
     (case s of (v, w, st) \<Rightarrow>
        if offline env
        then (Inl (new_Error
                ''You are offline. Please connect to the internet to update categories.''),
              s, [])
        else
          (let st1 = st\<lparr>busy := True, last_error := None\<rparr>;
               previousData = updates;
               (v1, ev1) = call_if (map_option (\<lambda>f. f ident updates) onOptimisticUpdate)
                             OptimisticPatch v
           in (case svc ident updates w of
                 (Inr u, w1) \<Rightarrow> (Inr (), (v1, w1, st1\<lparr>busy := False\<rparr>), ev1 @ [RemoteCall])
               | (Inl err, w1) \<Rightarrow>
                   (let (v2, ev2) =
                          call_if (map_option (\<lambda>g. g ident previousData) onRollback) Rollback v1
                    in (Inl err,
                        (v2, w1,
                         st1\<lparr>last_error :=
                                hook_error_message err ''Failed to update category'',
                              busy := False\<rparr>),
                        ev1 @ [RemoteCall] @ ev2)))))"

definition updateGoalMutation ::
  "hook_env \<Rightarrow> (string \<Rightarrow> GoalUpdates \<Rightarrow> 'v \<Rightarrow> 'v) option
     \<Rightarrow> (string \<Rightarrow> GoalUpdates \<Rightarrow> 'v \<Rightarrow> 'v) option
     \<Rightarrow> (string \<Rightarrow> GoalUpdates \<Rightarrow> 'w \<Rightarrow> (js_error + 'a) \<times> 'w)
     \<Rightarrow> string \<Rightarrow> GoalUpdates \<Rightarrow> 'v \<times> 'w \<times> mutation_state
     \<Rightarrow> (js_error + unit) \<times> ('v \<times> 'w \<times> mutation_state) \<times> hook_event list" where
  "updateGoalMutation env onOptimisticUpdate onRollback svc ident updates s =
     (case s of (v, w, st) \<Rightarrow>
        (let st1 = st\<lparr>busy := True, last_error := None\<rparr>;
             previousData = updates;
             (v1, ev1) = call_if (map_option (\<lambda>f. f ident updates) onOptimisticUpdate)
                           OptimisticPatch v
         in (case svc ident updates w of
               (Inr u, w1) \<Rightarrow> (Inr (), (v1, w1, st1\<lparr>busy := False\<rparr>), ev1 @ [RemoteCall])
             | (Inl err, w1) \<Rightarrow>
                 (let (v2, ev2) =
                        call_if (map_option (\<lambda>g. g ident previousData) onRollback) Rollback v1
                  in (Inl err,
                      (v2, w1,
                       st1\<lparr>last_error :=
                              hook_error_message err ''Failed to update goal'',
                            busy := False\<rparr>),
                      ev1 @ [RemoteCall] @ ev2)))))"

text \<open>\<^verbatim>\<open>{ current_amount: x }\<close>\<close>

definition only_current_amount :: "real \<Rightarrow> GoalUpdates" where
  "only_current_amount x =
     \<lparr>up_title = None, up_target_amount = None, up_current_amount = Some x,
      up_months_remaining = None\<rparr>"

definition addContributionMutation ::
  "hook_env \<Rightarrow> (string \<Rightarrow> GoalUpdates \<Rightarrow> 'v \<Rightarrow> 'v) option
     \<Rightarrow> (string \<Rightarrow> GoalUpdates \<Rightarrow> 'v \<Rightarrow> 'v) option
     \<Rightarrow> (string \<Rightarrow> real \<Rightarrow> 'w \<Rightarrow> (js_error + 'a) \<times> 'w)
     \<Rightarrow> string \<Rightarrow> real \<Rightarrow> 'v \<times> 'w \<times> mutation_state
     \<Rightarrow> (js_error + unit) \<times> ('v \<times> 'w \<times> mutation_state) \<times> hook_event list" where
  "addContributionMutation env onOptimisticUpdate onRollback svc goalId amount s =
     (case s of (v, w, st) \<Rightarrow>
        if offline env
        then (Inl (new_Error
                ''You are offline. Please connect to the internet to add contributions.''),
              s, [])
        else
          (let st1 = st\<lparr>busy := True, last_error := None\<rparr>;
               (v1, ev1) = call_if (map_option (\<lambda>f. f goalId (only_current_amount amount))
                                      onOptimisticUpdate)
                             OptimisticPatch v
           in (case svc goalId amount w of
                 (Inr u, w1) \<Rightarrow> (Inr (), (v1, w1, st1\<lparr>busy := False\<rparr>), ev1 @ [RemoteCall])
               | (Inl err, w1) \<Rightarrow>
                   (let (v2, ev2) =
                          call_if (map_option (\<lambda>g. g goalId (only_current_amount (- amount)))
                                     onRollback)
                            Rollback v1
                    in (Inl err,
                        (v2, w1,
                         st1\<lparr>last_error :=
                                hook_error_message err ''Failed to add contribution'',
                              busy := False\<rparr>),
                        ev1 @ [RemoteCall] @ ev2)))))"

section \<open>The callbacks the components pass\<close>

text \<open>\<^verbatim>\<open>context/AppContext.tsx\<close>: the view is \<^verbatim>\<open>optimisticTransactions\<close>.\<close>

definition AppContext_handleOptimisticAdd :: "Transaction \<Rightarrow> Transaction list \<Rightarrow> Transaction list" where
  "AppContext_handleOptimisticAdd transaction prev = transaction # prev"

definition AppContext_handleRollback :: "string \<Rightarrow> Transaction list \<Rightarrow> Transaction list" where
  "AppContext_handleRollback transactionId prev = filter (\<lambda>t. tx_id t \<noteq> transactionId) prev"

text \<open>\<^verbatim>\<open>{ ...g, ...updates }\<close> and \<^verbatim>\<open>{ ...c, ...updates }\<close>\<close>

definition spread_goal :: "FinancialGoal \<Rightarrow> GoalUpdates \<Rightarrow> FinancialGoal" where
  "spread_goal g updates =
     g\<lparr>goal_title := (case up_title updates of Some x \<Rightarrow> x | None \<Rightarrow> goal_title g),
       goal_target_amount :=
         (case up_target_amount updates of Some x \<Rightarrow> x | None \<Rightarrow> goal_target_amount g),
       goal_current_amount :=
         (case up_current_amount updates of Some x \<Rightarrow> x | None \<Rightarrow> goal_current_amount g),
       goal_months_remaining :=
         (case up_months_remaining updates of Some x \<Rightarrow> x | None \<Rightarrow> goal_months_remaining g)\<rparr>"

definition spread_category :: "SpendingCategory \<Rightarrow> CategoryUpdates \<Rightarrow> SpendingCategory" where
  "spread_category c updates =
     c\<lparr>cat_name := (case up_name updates of Some x \<Rightarrow> x | None \<Rightarrow> cat_name c),
       cat_value := (case up_value updates of Some x \<Rightarrow> x | None \<Rightarrow> cat_value c),
       cat_budget := (case up_budget updates of Some x \<Rightarrow> x | None \<Rightarrow> cat_budget c),
       cat_color := (case up_color updates of Some x \<Rightarrow> x | None \<Rightarrow> cat_color c)\<rparr>"

text \<open>\<^verbatim>\<open>components/Goals.tsx\<close>: the view is \<^verbatim>\<open>optimisticGoals\<close>; \<^verbatim>\<open>dbGoals\<close> is the
  collection of \<^verbatim>\<open>useGoals\<close> the callback closes over.\<close>

definition Goals_handleOptimisticUpdate ::
  "FinancialGoal list \<Rightarrow> string \<Rightarrow> GoalUpdates \<Rightarrow> FinancialGoal list \<Rightarrow> FinancialGoal list" where
  "Goals_handleOptimisticUpdate dbGoals goalId updates prev =
     (case find (\<lambda>g. goal_id g = goalId) prev of
        Some existing \<Rightarrow> map (\<lambda>g. if goal_id g = goalId then spread_goal g updates else g) prev
      | None \<Rightarrow>
          (case find (\<lambda>g. goal_id g = goalId) dbGoals of
             Some dbGoal \<Rightarrow> prev @ [spread_goal dbGoal updates]
           | None \<Rightarrow> prev))"

definition Goals_handleRollback ::
  "string \<Rightarrow> GoalUpdates \<Rightarrow> FinancialGoal list \<Rightarrow> FinancialGoal list" where
  "Goals_handleRollback goalId previousData prev =
     (case find (\<lambda>g. goal_id g = goalId) prev of
        Some existing \<Rightarrow>
          (case up_current_amount previousData of
             Some a \<Rightarrow>
               map (\<lambda>g. if goal_id g = goalId
                        then g\<lparr>goal_current_amount := goal_current_amount g - a\<rparr> else g) prev
           | None \<Rightarrow> filter (\<lambda>g. goal_id g \<noteq> goalId) prev)
      | None \<Rightarrow> filter (\<lambda>g. goal_id g \<noteq> goalId) prev)"

text \<open>The collection \<^verbatim>\<open>Goals.tsx\<close> shows:
  \<^verbatim>\<open>dbGoals.map(g => optimisticMap.get(g.id) || g)\<close>, where a later entry of
  \<^verbatim>\<open>optimisticGoals\<close> with the same id replaces an earlier one in the \<^verbatim>\<open>Map\<close>.\<close>

definition Goals_goals :: "FinancialGoal list \<Rightarrow> FinancialGoal list \<Rightarrow> FinancialGoal list" where
  "Goals_goals dbGoals optimisticGoals =
     map (\<lambda>g. case find (\<lambda>og. goal_id og = goal_id g) (rev optimisticGoals) of
                 Some og \<Rightarrow> og | None \<Rightarrow> g) dbGoals"

text \<open>\<^verbatim>\<open>docs/OPTIMISTIC_UPDATES.md\<close>, the usage example of \<^verbatim>\<open>useUpdateCategory\<close>: the
  view is \<^verbatim>\<open>categories\<close>.\<close>

definition doc_handleOptimisticUpdate ::
  "string \<Rightarrow> CategoryUpdates \<Rightarrow> SpendingCategory list \<Rightarrow> SpendingCategory list" where
  "doc_handleOptimisticUpdate ident updates prev =
     map (\<lambda>c. if cat_id c = ident then spread_category c updates else c) prev"

definition doc_handleRollback ::
  "string \<Rightarrow> CategoryUpdates \<Rightarrow> SpendingCategory list \<Rightarrow> SpendingCategory list" where
  "doc_handleRollback ident previousData prev =
     map (\<lambda>c. if cat_id c = ident then spread_category c previousData else c) prev"

section \<open>List hooks and the local cache\<close>

text \<open>
  \<^verbatim>\<open>useTransactions\<close>, \<^verbatim>\<open>useCategories\<close> and \<^verbatim>\<open>useGoals\<close> keep a collection, a
  loading flag and an error message, and write \<^verbatim>\<open>localStorage\<close>. An entry of
  \<^verbatim>\<open>localStorage\<close> is the collection that \<^verbatim>\<open>JSON.parse\<close> gives back from the string
  \<^verbatim>\<open>JSON.stringify\<close> stored, and \<^verbatim>\<open>localStorage.setItem\<close> stores what it is given.
  A fetch runs from the call of the entity service to the last \<^verbatim>\<open>setState\<close> in one
  step. \<open>load_error\<close> is the argument of the last \<^verbatim>\<open>setError\<close>.
\<close>

record 'a list_state =
  items :: "'a list"
  loading :: bool
  load_error :: "string option"

record 'a paged_state = "'a list_state" +
  offset :: nat
  hasMore :: bool

type_synonym 'a storage = "string \<rightharpoonup> 'a list"

definition transactions_cacheKey :: "string \<Rightarrow> string" where
  "transactions_cacheKey uid = ''finsmart_transactions_'' @ uid"



text \<open>\<^verbatim>\<open>fetchTransactions(reset)\<close>. \<open>closure_offset\<close> is the value of \<^verbatim>\<open>offset\<close> the
  callback closed over when it was created.\<close>

definition fetchTransactions ::
  "string option \<Rightarrow> nat \<Rightarrow> (string \<Rightarrow> nat \<Rightarrow> nat \<Rightarrow> 'w \<Rightarrow> (js_error + Transaction list) \<times> 'w)
     \<Rightarrow> nat \<Rightarrow> bool \<Rightarrow> Transaction paged_state \<times> Transaction storage \<times> 'w
     \<Rightarrow> Transaction paged_state \<times> Transaction storage \<times> 'w" where
  "fetchTransactions u limit getTransactions closure_offset reset s =
     (case s of (st, ls, w) \<Rightarrow>
        (case u of
           None \<Rightarrow> (st\<lparr>loading := False\<rparr>, ls, w)
         | Some uid \<Rightarrow>
             if uid = [] then (st\<lparr>loading := False\<rparr>, ls, w)
             else
               (let st1 = st\<lparr>load_error := None\<rparr>;
                    currentOffset = (if reset then 0 else closure_offset)
                in (case getTransactions uid limit currentOffset w of
                      (Inr data, w1) \<Rightarrow>
                        (let (st2, ls2) =
                               (if reset
                                then (st1\<lparr>items := data, offset := 0\<rparr>,
                                      ls(transactions_cacheKey uid \<mapsto> data))
                                else (st1\<lparr>items := items st1 @ data\<rparr>, ls))
                         in (st2\<lparr>hasMore := (length data = limit), loading := False\<rparr>, ls2, w1))
                    | (Inl err, w1) \<Rightarrow>
                        (st1\<lparr>load_error := hook_error_message err ''Failed to load transactions'',
                             loading := False\<rparr>, ls, w1)))))"

text \<open>\<^verbatim>\<open>loadMore\<close> and \<^verbatim>\<open>refetch\<close>: \<^verbatim>\<open>setOffset\<close> first, then the fetch, whose
  closure still holds the \<^verbatim>\<open>offset\<close> of the last render.\<close>

definition loadMore ::
  "string option \<Rightarrow> nat \<Rightarrow> (string \<Rightarrow> nat \<Rightarrow> nat \<Rightarrow> 'w \<Rightarrow> (js_error + Transaction list) \<times> 'w)
     \<Rightarrow> Transaction paged_state \<times> Transaction storage \<times> 'w
     \<Rightarrow> Transaction paged_state \<times> Transaction storage \<times> 'w" where
  "loadMore u limit getTransactions s =
     (case s of (st, ls, w) \<Rightarrow>
        if \<not> hasMore st \<or> loading st then s
        else fetchTransactions u limit getTransactions (offset st) False
               (st\<lparr>offset := offset st + limit\<rparr>, ls, w))"

definition refetch ::
  "string option \<Rightarrow> nat \<Rightarrow> (string \<Rightarrow> nat \<Rightarrow> nat \<Rightarrow> 'w \<Rightarrow> (js_error + Transaction list) \<times> 'w)
     \<Rightarrow> Transaction paged_state \<times> Transaction storage \<times> 'w
     \<Rightarrow> Transaction paged_state \<times> Transaction storage \<times> 'w" where
  "refetch u limit getTransactions s =
     (case s of (st, ls, w) \<Rightarrow>
        fetchTransactions u limit getTransactions (offset st) True (st\<lparr>offset := 0\<rparr>, ls, w))"


















section \<open>Change-event subscriptions\<close>

text \<open>
  \<^verbatim>\<open>subscribeToTransactions\<close>, \<^verbatim>\<open>subscribeToCategories\<close> and \<^verbatim>\<open>subscribeToGoals\<close>
  register the same handler:
  \<^verbatim>\<open>async () => { try { const rows = await getX(userId); callback(rows) }
               catch (error) { logDatabaseError(...) } }\<close>.
  The handler runs up to its \<^verbatim>\<open>await\<close> when a change event arrives, which issues the
  list call, and resumes when that call settles. \<open>in_flight\<close> holds the list calls
  issued and not yet settled, \<open>issued\<close> counts the calls issued, \<open>delivered\<close> the
  collections passed to \<^verbatim>\<open>callback\<close>, \<open>sub_log\<close> the errors logged.
\<close>

record 'a subscription =
  in_flight :: "nat list"
  issued :: nat
  delivered :: "'a list list"
  sub_log :: "js_error list"

datatype 'a channel_event = ChangeEvent | Settled nat "js_error + 'a list"

definition subscribed :: "'a subscription" where
  "subscribed = \<lparr>in_flight = [], issued = 0, delivered = [], sub_log = []\<rparr>"

fun on_event :: "'a subscription \<Rightarrow> 'a channel_event \<Rightarrow> 'a subscription" where
  "on_event s ChangeEvent = s\<lparr>in_flight := in_flight s @ [issued s], issued := Suc (issued s)\<rparr>"
| "on_event s (Settled call result) =
     (if call \<in> set (in_flight s)
      then (case result of
              Inr rows \<Rightarrow>
                s\<lparr>in_flight := removeAll call (in_flight s), delivered := delivered s @ [rows]\<rparr>
            | Inl err \<Rightarrow>
                s\<lparr>in_flight := removeAll call (in_flight s), sub_log := sub_log s @ [err]\<rparr>)
      else s)"

definition run_events :: "'a channel_event list \<Rightarrow> 'a subscription" where
  "run_events evs = foldl on_event subscribed evs"

section \<open>Notions used in the statements\<close>

text \<open>The classes of raw failures \<^verbatim>\<open>transformError\<close> distinguishes: a failure of the auth
  subsystem; among the messages of such failures, that of the duplicate registration; a
  failure with the shape of a \<^verbatim>\<open>PostgrestError\<close>; a failure whose message indicates a
  fetch or connectivity failure.\<close>

definition from_auth :: "raw_error \<Rightarrow> bool" where
  "from_auth r = (err_name r = ''AuthError'' \<or> err_isAuthError r)"

definition duplicate_registration :: "string \<Rightarrow> bool" where
  "duplicate_registration message =
     (str_includes message ''User already registered''
      \<and> \<not> str_includes message ''Invalid login credentials''
      \<and> \<not> str_includes message ''Email not confirmed'')"

definition store_shaped :: "raw_error \<Rightarrow> bool" where
  "store_shaped r = (err_code r \<noteq> [] \<and> truthy (err_message r) \<and> err_details r \<noteq> [])"

definition fetch_failure :: "raw_error \<Rightarrow> bool" where
  "fetch_failure r =
     ((err_class r = TypeErrorClass \<and> opt_includes (err_message r) ''fetch'')
      \<or> opt_includes (err_message r) ''NetworkError''
      \<or> opt_includes (err_message r) ''Failed to fetch'')"

text \<open>Sample failures: the auth subsystem's answer to a second sign-up with the same
  address; the same with the code and details of a unique-constraint violation; an object
  that carries the flag of the auth subsystem and nothing else; the store's errors for a
  given code, with and without details, and for a request that did not reach it; the
  \<^verbatim>\<open>TypeError\<close> \<^verbatim>\<open>fetch\<close> throws when the network is down.\<close>

definition duplicate_signup_error :: raw_error where
  "duplicate_signup_error =
     \<lparr>err_class = ErrorClass, err_name = ''AuthError'', err_isAuthError = True,
      err_code = [], err_message = Some ''User already registered'', err_details = []\<rparr>"

definition auth_conflict_error :: raw_error where
  "auth_conflict_error =
     \<lparr>err_class = ErrorClass, err_name = ''AuthError'', err_isAuthError = True,
      err_code = ''23505'', err_message = Some ''duplicate key value'',
      err_details = ''Key (email) already exists.''\<rparr>"

definition bare_auth_flag :: raw_error where
  "bare_auth_flag =
     \<lparr>err_class = PlainObject, err_name = [], err_isAuthError = True,
      err_code = [], err_message = None, err_details = []\<rparr>"

definition postgrest_error :: "string \<Rightarrow> PostgrestError" where
  "postgrest_error code =
     \<lparr>pg_message = ''request rejected'', pg_details = ''see the log'', pg_hint = [],
      pg_code = code\<rparr>"

definition postgrest_error_without_details :: "string \<Rightarrow> PostgrestError" where
  "postgrest_error_without_details code =
     \<lparr>pg_message = ''request rejected'', pg_details = [], pg_hint = [], pg_code = code\<rparr>"

definition network_failure :: PostgrestError where
  "network_failure =
     \<lparr>pg_message = ''TypeError: Failed to fetch'', pg_details = [], pg_hint = [],
      pg_code = []\<rparr>"

definition failed_to_fetch :: js_error where
  "failed_to_fetch = new_TypeError ''Failed to fetch''"

text \<open>An operation that fails whenever it is called, and one that fails every time with an
  error that the retry predicate accepts and \<^verbatim>\<open>logError\<close> can classify; the world after
  \<open>k\<close> calls of an operation.\<close>

definition always_fails :: "('w \<Rightarrow> (js_error + 'a) \<times> 'w) \<Rightarrow> bool" where
  "always_fails operation = (\<forall>w. \<exists>e. fst (operation w) = Inl e)"

definition always_fails_retryable ::
  "(js_error \<Rightarrow> js_error + bool) \<Rightarrow> ('w \<Rightarrow> (js_error + 'a) \<times> 'w) \<Rightarrow> bool" where
  "always_fails_retryable p operation =
     (\<forall>w. \<exists>e. fst (operation w) = Inl e \<and> p e = Inr True \<and> \<not> isl (transformError e))"

primrec world_after :: "('w \<Rightarrow> (js_error + 'a) \<times> 'w) \<Rightarrow> nat \<Rightarrow> 'w \<Rightarrow> 'w" where
  "world_after operation 0 w = w"
| "world_after operation (Suc k) w = world_after operation k (snd (operation w))"

text \<open>Sample operations and stores: an operation that counts its calls and fails each
  time with the same error; \<^verbatim>\<open>withRetry(operation)\<close> called without options; a store
  with empty tables whose requests fail as \<open>f\<close> says.\<close>

definition failing_operation :: "js_error \<Rightarrow> nat \<Rightarrow> (js_error + unit) \<times> nat" where
  "failing_operation e n = (Inl e, Suc n)"


definition empty_store :: "(nat \<Rightarrow> PostgrestError option) \<Rightarrow> world" where
  "empty_store f =
     \<lparr>transactions = Map.empty, spending_categories = Map.empty, faults = f,
      requests = 0, new_id = (\<lambda>n. ''row''), now = ''2024-01-01T00:00:00.000Z'', console = []\<rparr>"

text \<open>The transaction service seen from one run of its body: \<open>skip k w\<close> is the world
  after \<open>k\<close> more requests that changed nothing; \<open>primary_fails\<close> says that the
  fetch or the delete of the transaction fails in \<open>w\<close>.\<close>

definition skip :: "nat \<Rightarrow> world \<Rightarrow> world" where
  "skip k w = w\<lparr>requests := requests w + k\<rparr>"

definition primary_fails :: "string \<Rightarrow> world \<Rightarrow> bool" where
  "primary_fails ident w =
     (faults w (requests w) \<noteq> None \<or> transactions w ident = None
      \<or> faults w (Suc (requests w)) \<noteq> None)"

text \<open>The scenario of the transaction service: one category with a running total of
  200.00, one transaction of 45.25 linked to it, a new transaction to create, and a store
  whose request number \<open>k\<close> fails. \<open>inserted_row\<close> is the row the store returns for an
  insert.\<close>

definition groceries :: SpendingCategory where
  "groceries = \<lparr>cat_id = ''c1'', cat_user_id = ''u1'', cat_name = ''Food and Groceries'',
     cat_value = 200, cat_budget = 500, cat_color = ''#10b981'',
     cat_created_at = ''2024-01-01T00:00:00.000Z'', cat_updated_at = ''2024-01-01T00:00:00.000Z''\<rparr>"

definition lunch :: Transaction where
  "lunch = \<lparr>tx_id = ''t1'', tx_user_id = ''u1'', tx_category_id = Some ''c1'',
     tx_description = ''Lunch'', tx_amount = 45.25, tx_category_name = ''Food and Groceries'',
     tx_created_at = ''2024-01-02T12:00:00.000Z''\<rparr>"

definition scenario_store :: "(nat \<Rightarrow> PostgrestError option) \<Rightarrow> world" where
  "scenario_store f =
     \<lparr>transactions = [''t1'' \<mapsto> lunch], spending_categories = [''c1'' \<mapsto> groceries],
      faults = f, requests = 0, new_id = (\<lambda>n. ''t2''), now = ''2024-01-03T00:00:00.000Z'',
      console = []\<rparr>"

definition fails_at :: "nat \<Rightarrow> PostgrestError \<Rightarrow> nat \<Rightarrow> PostgrestError option" where
  "fails_at k e n = (if n = k then Some e else None)"

text \<open>The scenario store whose first request and request number \<open>k\<close> fail with a
  network error.\<close>

definition flaky_store :: "nat \<Rightarrow> world" where
  "flaky_store k = scenario_store ((fails_at 0 network_failure)(k := Some network_failure))"

definition inserted_row :: "NewTransaction \<Rightarrow> world \<Rightarrow> Transaction" where
  "inserted_row d w =
     \<lparr>tx_id = new_id w (requests w), tx_user_id = in_user_id d,
      tx_category_id = in_category_id d, tx_description = in_description d,
      tx_amount = in_amount d, tx_category_name = in_category_name d,
      tx_created_at = now w\<rparr>"

definition coffee :: NewTransaction where
  "coffee = \<lparr>in_category_id = Some ''c1'', in_description = ''Coffee'', in_amount = 4.5,
     in_category_name = ''Food and Groceries'', in_user_id = ''u1''\<rparr>"



definition house :: FinancialGoal where
  "house =
     \<lparr>goal_id = ''g1'', goal_user_id = ''u1'', goal_title = ''House'',
      goal_target_amount = 1000, goal_current_amount = 100, goal_months_remaining = 12,
      goal_created_at = ''2024-01-01T00:00:00.000Z'',
      goal_updated_at = ''2024-01-01T00:00:00.000Z''\<rparr>"





definition browser :: "bool \<Rightarrow> hook_env" where
  "browser onLine =
     \<lparr>user = Some ''u1'', navigator_onLine = Some onLine, Date_now = ''1699999999'',
      Date_iso = ''2023-11-14T22:13:19.000Z''\<rparr>"

definition idle :: mutation_state where
  "idle = \<lparr>busy = False, last_error = None\<rparr>"

definition counting_ok :: "'k \<Rightarrow> 'u \<Rightarrow> nat \<Rightarrow> (js_error + unit) \<times> nat" where
  "counting_ok ident updates n = (Inr (), Suc n)"

definition counting_fail :: "'k \<Rightarrow> 'u \<Rightarrow> nat \<Rightarrow> (js_error + unit) \<times> nat" where
  "counting_fail ident updates n = (Inl failed_to_fetch, Suc n)"

definition new_title :: GoalUpdates where
  "new_title =
     \<lparr>up_title = Some ''Flat'', up_target_amount = None, up_current_amount = None,
      up_months_remaining = None\<rparr>"

definition new_budget :: CategoryUpdates where
  "new_budget = \<lparr>up_name = None, up_value = None, up_budget = Some 300, up_color = None\<rparr>"

section \<open>Properties\<close>

subsection \<open>Error classifier\<close>

text \<open>The errors of the store are classified without a throw, so that logging one
  appends an entry.\<close>

lemma transformError_js_of:
  "transformError (js_of e) =
     Inr (if pg_code e \<noteq> [] \<and> pg_message e \<noteq> [] \<and> pg_details e \<noteq> []
          then transformPostgrestError (raw_of e)
          else if str_includes (pg_message e) ''NetworkError''
                  \<or> str_includes (pg_message e) ''Failed to fetch''
          then SupabaseErr (ERROR_MESSAGES NETWORK_ERROR) NETWORK_ERROR (js_of e)
          else SupabaseErr (or_else (Some (pg_message e)) (ERROR_MESSAGES UNKNOWN_ERROR))
                 UNKNOWN_ERROR (js_of e))"
  by (simp add: js_of_def raw_of_def truthy_def opt_includes_def)

lemma logDatabaseError_js_of [simp]:
  "logDatabaseError (js_of e) operation w
     = Inr (w\<lparr>console := console w @ [(js_of e, operation)]\<rparr>)"
  by (simp add: logDatabaseError_def logError_def transformError_js_of)

text \<open>
  C5, as the claim states it, fails in four ways. The auth subsystem's
  duplicate-registration failure is classified \<open>VALIDATION_ERROR\<close>, not
  \<open>AUTH_ERROR\<close>. The auth rule comes before the rules on the store's codes: a failure
  of the auth subsystem that carries the code 23505, a message and details is classified
  \<open>AUTH_ERROR\<close>, not \<open>VALIDATION_ERROR\<close>. A failure with the code 23505 and no
  details is classified \<open>UNKNOWN_ERROR\<close>. For an object that carries the flag of the
  auth subsystem and no message the classifier throws a \<^verbatim>\<open>TypeError\<close>.
\<close>

theorem C5_priority_counterexample:
  "transformError (Obj duplicate_signup_error)
     = Inr (SupabaseErr ''An account with this email already exists.'' VALIDATION_ERROR
              (Obj duplicate_signup_error))
   \<and> transformError (Obj auth_conflict_error)
     = Inr (SupabaseErr ''duplicate key value'' AUTH_ERROR (Obj auth_conflict_error))
   \<and> transformError (js_of (postgrest_error_without_details ''23505''))
     = Inr (SupabaseErr ''request rejected'' UNKNOWN_ERROR
              (js_of (postgrest_error_without_details ''23505'')))
   \<and> transformError (Obj bare_auth_flag) = Inl cannot_read_includes"
  by (simp add: duplicate_signup_error_def auth_conflict_error_def bare_auth_flag_def
        postgrest_error_without_details_def js_of_def raw_of_def transformAuthError_def
        truthy_def opt_includes_def or_else_def)

text \<open>
  C5 (amended), for every thrown value whose name, code, message and details are each
  a string or absent. An already classified error passes through unchanged, and
  \<^verbatim>\<open>undefined\<close> becomes \<open>UNKNOWN_ERROR\<close>. A raw failure of the auth subsystem is
  looked at first: without a message the classifier throws a \<^verbatim>\<open>TypeError\<close>; with a
  message it becomes \<open>AUTH_ERROR\<close>, except the duplicate registration, which becomes
  \<open>VALIDATION_ERROR\<close> with its own message. Any other failure with a non-empty code,
  message and details becomes \<open>VALIDATION_ERROR\<close> for the codes 23505 and 23503, with
  the uniqueness and the foreign-key message, \<open>PERMISSION_ERROR\<close> for PGRST301 and
  \<open>UNKNOWN_ERROR\<close> for any other code. For any other failure: a \<^verbatim>\<open>TypeError\<close>
  without a message makes the classifier throw a \<^verbatim>\<open>TypeError\<close>; otherwise a message
  that indicates a fetch or connectivity failure (that of a \<^verbatim>\<open>TypeError\<close> containing
  \<^verbatim>\<open>fetch\<close>, or any containing \<^verbatim>\<open>NetworkError\<close> or \<^verbatim>\<open>Failed to fetch\<close>) gives
  \<open>NETWORK_ERROR\<close>, and everything else \<open>UNKNOWN_ERROR\<close>. The original error is
  kept in every case.
\<close>

theorem C5_transformError_rules:
  "transformError (SupabaseErr m t orig) = Inr (SupabaseErr m t orig)
   \<and> transformError Undefined
       = Inr (SupabaseErr (ERROR_MESSAGES UNKNOWN_ERROR) UNKNOWN_ERROR Undefined)
   \<and> (from_auth r \<and> err_message r = None \<longrightarrow>
        transformError (Obj r) = Inl cannot_read_includes)
   \<and> (from_auth r \<and> err_message r = Some message \<longrightarrow>
        (duplicate_registration message \<longrightarrow>
           transformError (Obj r) =
             Inr (SupabaseErr ''An account with this email already exists.''
                    VALIDATION_ERROR (Obj r)))
        \<and> (\<not> duplicate_registration message \<longrightarrow>
             (\<exists>text. transformError (Obj r) = Inr (SupabaseErr text AUTH_ERROR (Obj r)))))
   \<and> (\<not> from_auth r \<and> store_shaped r \<longrightarrow>
        (err_code r = ''23505'' \<longrightarrow>
           transformError (Obj r) =
             Inr (SupabaseErr ''This record already exists.'' VALIDATION_ERROR (Obj r)))
        \<and> (err_code r = ''23503'' \<longrightarrow>
           transformError (Obj r) =
             Inr (SupabaseErr ''Invalid reference. The related record does not exist.''
                    VALIDATION_ERROR (Obj r)))
        \<and> (err_code r = ''PGRST301'' \<longrightarrow>
           transformError (Obj r) =
             Inr (SupabaseErr (ERROR_MESSAGES PERMISSION_ERROR) PERMISSION_ERROR (Obj r)))
        \<and> (err_code r \<notin> {''23505'', ''23503'', ''PGRST301''} \<longrightarrow>
           (\<exists>text. transformError (Obj r) = Inr (SupabaseErr text UNKNOWN_ERROR (Obj r)))))
   \<and> (\<not> from_auth r \<and> \<not> store_shaped r
        \<and> err_class r = TypeErrorClass \<and> err_message r = None \<longrightarrow>
        transformError (Obj r) = Inl cannot_read_includes)
   \<and> (\<not> from_auth r \<and> \<not> store_shaped r
        \<and> \<not> (err_class r = TypeErrorClass \<and> err_message r = None) \<longrightarrow>
        (fetch_failure r \<longrightarrow>
           transformError (Obj r) =
             Inr (SupabaseErr (ERROR_MESSAGES NETWORK_ERROR) NETWORK_ERROR (Obj r)))
        \<and> (\<not> fetch_failure r \<longrightarrow>
             (\<exists>text. transformError (Obj r) = Inr (SupabaseErr text UNKNOWN_ERROR (Obj r)))))"
proof -
  have auth: "(duplicate_registration message \<longrightarrow>
           transformError (Obj r) =
             Inr (SupabaseErr ''An account with this email already exists.''
                    VALIDATION_ERROR (Obj r)))
        \<and> (\<not> duplicate_registration message \<longrightarrow>
             (\<exists>text. transformError (Obj r) = Inr (SupabaseErr text AUTH_ERROR (Obj r))))"
    if "from_auth r" "err_message r = Some message"
    using that by (simp add: from_auth_def duplicate_registration_def transformAuthError_def)
  have store: "(err_code r = ''23505'' \<longrightarrow>
           transformError (Obj r) =
             Inr (SupabaseErr ''This record already exists.'' VALIDATION_ERROR (Obj r)))
        \<and> (err_code r = ''23503'' \<longrightarrow>
           transformError (Obj r) =
             Inr (SupabaseErr ''Invalid reference. The related record does not exist.''
                    VALIDATION_ERROR (Obj r)))
        \<and> (err_code r = ''PGRST301'' \<longrightarrow>
           transformError (Obj r) =
             Inr (SupabaseErr (ERROR_MESSAGES PERMISSION_ERROR) PERMISSION_ERROR (Obj r)))
        \<and> (err_code r \<notin> {''23505'', ''23503'', ''PGRST301''} \<longrightarrow>
           (\<exists>text. transformError (Obj r) = Inr (SupabaseErr text UNKNOWN_ERROR (Obj r))))"
    if "\<not> from_auth r" "store_shaped r"
    using that by (simp add: from_auth_def store_shaped_def transformPostgrestError_def)
  have other: "(fetch_failure r \<longrightarrow>
           transformError (Obj r) =
             Inr (SupabaseErr (ERROR_MESSAGES NETWORK_ERROR) NETWORK_ERROR (Obj r)))
        \<and> (\<not> fetch_failure r \<longrightarrow>
             (\<exists>text. transformError (Obj r) = Inr (SupabaseErr text UNKNOWN_ERROR (Obj r))))"
    if "\<not> from_auth r" "\<not> store_shaped r"
      "\<not> (err_class r = TypeErrorClass \<and> err_message r = None)"
    using that by (auto simp add: from_auth_def store_shaped_def fetch_failure_def)
  have throws: "transformError (Obj r) = Inl cannot_read_includes"
    if "from_auth r" "err_message r = None"
    using that by (simp add: from_auth_def transformAuthError_def)
  have throws': "transformError (Obj r) = Inl cannot_read_includes"
    if "\<not> from_auth r" "\<not> store_shaped r" "err_class r = TypeErrorClass"
      "err_message r = None"
    using that by (simp add: from_auth_def store_shaped_def)
  show ?thesis
    using auth store other throws throws' by simp
qed

theorem C5_transformError_rules_witness:
  "from_auth duplicate_signup_error
   \<and> duplicate_registration ''User already registered''
   \<and> transformError (Obj duplicate_signup_error)
       = Inr (SupabaseErr ''An account with this email already exists.'' VALIDATION_ERROR
                (Obj duplicate_signup_error))
   \<and> from_auth bare_auth_flag \<and> err_message bare_auth_flag = None
   \<and> transformError (Obj bare_auth_flag) = Inl cannot_read_includes
   \<and> \<not> from_auth (raw_of (postgrest_error ''23505''))
   \<and> store_shaped (raw_of (postgrest_error ''23505''))
   \<and> transformError (js_of (postgrest_error ''23505''))
       = Inr (SupabaseErr ''This record already exists.'' VALIDATION_ERROR
                (js_of (postgrest_error ''23505'')))
   \<and> transformError (js_of (postgrest_error ''PGRST301''))
       = Inr (SupabaseErr (ERROR_MESSAGES PERMISSION_ERROR) PERMISSION_ERROR
                (js_of (postgrest_error ''PGRST301'')))
   \<and> transformError failed_to_fetch
       = Inr (SupabaseErr (ERROR_MESSAGES NETWORK_ERROR) NETWORK_ERROR failed_to_fetch)"
proof -
  have a: "from_auth duplicate_signup_error"
    "err_message duplicate_signup_error = Some ''User already registered''"
    "duplicate_registration ''User already registered''"
    by (simp_all add: from_auth_def duplicate_signup_error_def duplicate_registration_def)
  have b: "from_auth bare_auth_flag" "err_message bare_auth_flag = None"
    by (simp_all add: from_auth_def bare_auth_flag_def)
  have c: "\<not> from_auth (raw_of (postgrest_error code))"
    "code \<noteq> [] \<Longrightarrow> store_shaped (raw_of (postgrest_error code))"
    "err_code (raw_of (postgrest_error code)) = code" for code
    by (simp_all add: from_auth_def store_shaped_def raw_of_def postgrest_error_def truthy_def)
  have d: "\<not> from_auth r \<and> \<not> store_shaped r
        \<and> \<not> (err_class r = TypeErrorClass \<and> err_message r = None) \<and> fetch_failure r"
    if "failed_to_fetch = Obj r" for r
    using that
    by (auto simp add: failed_to_fetch_def new_TypeError_def from_auth_def store_shaped_def
          fetch_failure_def opt_includes_def)
  obtain r where r: "failed_to_fetch = Obj r"
    by (simp add: failed_to_fetch_def new_TypeError_def)
  have 1: "transformError (Obj duplicate_signup_error)
       = Inr (SupabaseErr ''An account with this email already exists.'' VALIDATION_ERROR
                (Obj duplicate_signup_error))"
    using C5_transformError_rules [where r = duplicate_signup_error
        and message = "''User already registered''"] a by blast
  have 2: "transformError (Obj bare_auth_flag) = Inl cannot_read_includes"
    using C5_transformError_rules [where r = bare_auth_flag] b by blast
  have 3: "transformError (js_of (postgrest_error ''23505''))
       = Inr (SupabaseErr ''This record already exists.'' VALIDATION_ERROR
                (js_of (postgrest_error ''23505'')))"
    using C5_transformError_rules [where r = "raw_of (postgrest_error ''23505'')"]
      c(1)[of "''23505''"] c(2)[of "''23505''"] c(3)[of "''23505''"]
    unfolding js_of_def by fastforce
  have 4: "transformError (js_of (postgrest_error ''PGRST301''))
       = Inr (SupabaseErr (ERROR_MESSAGES PERMISSION_ERROR) PERMISSION_ERROR
                (js_of (postgrest_error ''PGRST301'')))"
    using C5_transformError_rules [where r = "raw_of (postgrest_error ''PGRST301'')"]
      c(1)[of "''PGRST301''"] c(2)[of "''PGRST301''"] c(3)[of "''PGRST301''"]
    unfolding js_of_def by fastforce
  have 5: "transformError failed_to_fetch
       = Inr (SupabaseErr (ERROR_MESSAGES NETWORK_ERROR) NETWORK_ERROR failed_to_fetch)"
    using C5_transformError_rules [where r = r] d[OF r] unfolding r by blast
  show ?thesis
    using a(1,3) b c(1)[of "''23505''"] c(2)[of "''23505''"] 1 2 3 4 5 by simp
qed

subsection \<open>Backoff policy\<close>


















subsection \<open>Change-event subscriptions\<close>

text \<open>
  C10, as the claim states it, fails: two change events arriving before any list call
  settles leave two list calls in flight.
\<close>

theorem C10_two_events_counterexample:
  "length (in_flight (run_events [ChangeEvent, ChangeEvent] :: FinancialGoal subscription)) = 2
   \<and> \<not> length (in_flight
          (run_events [ChangeEvent, ChangeEvent] :: FinancialGoal subscription)) \<le> 1"
  by (simp add: run_events_def subscribed_def)

lemma run_events_snoc: "run_events (evs @ [ev]) = on_event (run_events evs) ev"
  by (simp add: run_events_def)

lemma replicate_snoc: "replicate (Suc k) x = replicate k x @ [x]"
  by (simp add: replicate_append_same)

text \<open>
  C10 (amended): every change event issues its own list call at once, whatever is in
  flight; after \<open>k\<close> change events none of which has settled, \<open>k\<close> list calls are in
  flight. Nothing is suppressed or coalesced.
\<close>

theorem C10_every_event_issues_a_list_call:
  "length (in_flight (on_event s ChangeEvent)) = Suc (length (in_flight s))
   \<and> issued (on_event s ChangeEvent) = Suc (issued s)
   \<and> length (in_flight (run_events (replicate k ChangeEvent))) = k"
proof -
  have "length (in_flight (run_events (replicate k ChangeEvent))) = k"
  proof (induction k)
    case 0
    then show ?case by (simp add: run_events_def subscribed_def)
  next
    case (Suc k)
    then show ?case unfolding replicate_snoc run_events_snoc by simp
  qed
  then show ?thesis by simp
qed

subsection \<open>Retry wrappers\<close>

text \<open>One unfolding of each loop for a default \<^verbatim>\<open>maxRetries\<close> of 3.\<close>

lemma svc_withRetry_3:
  "svc_withRetry operation 3 d w =
     (case operation w of
        (Inr v, w1) \<Rightarrow> (Inr v, w1, [Called])
      | (Inl e1, w1) \<Rightarrow>
          (case operation w1 of
             (Inr v, w2) \<Rightarrow>
               (Inr v, w2, [Called, Slept (round_double (d * round_double (2 ^ 0))), Called])
           | (Inl e2, w2) \<Rightarrow>
               (case operation w2 of
                  (Inr v, w3) \<Rightarrow>
                    (Inr v, w3,
                     [Called, Slept (round_double (d * round_double (2 ^ 0))), Called,
                      Slept (round_double (d * round_double (2 ^ 1))), Called])
                | (Inl e3, w3) \<Rightarrow>
                    (Inl e3, w3,
                     [Called, Slept (round_double (d * round_double (2 ^ 0))), Called,
                      Slept (round_double (d * round_double (2 ^ 1))), Called]))))"
  unfolding svc_withRetry_def
  apply (subst svc_withRetry_loop.simps)
  apply (subst svc_withRetry_loop.simps)
  apply (subst svc_withRetry_loop.simps)
  apply (simp split: prod.splits sum.splits)
  done

lemma logError_classified: "\<not> isl (transformError e) \<Longrightarrow> logError e c = Inr (e, c)"
  by (cases "transformError e") (simp_all add: logError_def)

lemma withRetry_loop_exhaust:
  assumes "always_fails_retryable (cfg_shouldRetry config) operation"
  shows "attempt + k = cfg_maxRetries config \<Longrightarrow>
     withRetry_loop config rnd operation attempt lastError w = (r, w', tr) \<Longrightarrow>
        r = fst (operation (world_after operation k w)) \<and>
        w' = world_after operation (Suc k) w \<and>
        attempts tr = Suc k"
proof (induction k arbitrary: attempt lastError w r w' tr)
  case 0
  obtain e where e: "fst (operation w) = Inl e" and p: "cfg_shouldRetry config e = Inr True"
    and l: "\<not> isl (transformError e)"
    using assms unfolding always_fails_retryable_def by blast
  then obtain w1 where w1: "operation w = (Inl e, w1)" by (cases "operation w") simp
  have "withRetry_loop config rnd operation attempt lastError w =
          (Inl e, w1, [Called, Logged e (Operation_failed_after (attempt + 1))])"
    using 0 w1 p by (subst withRetry_loop.simps) (simp add: logError_classified[OF l])
  with 0 w1 show ?case
    by (auto simp add: attempts_def)
next
  case (Suc k)
  obtain e where e: "fst (operation w) = Inl e" and p: "cfg_shouldRetry config e = Inr True"
    and l: "\<not> isl (transformError e)"
    using assms unfolding always_fails_retryable_def by blast
  then obtain w1 where w1: "operation w = (Inl e, w1)" by (cases "operation w") simp
  have a: "Suc attempt + k = cfg_maxRetries config" using Suc.prems by simp
  have ne: "attempt \<noteq> cfg_maxRetries config" "attempt \<le> cfg_maxRetries config"
    using Suc.prems by auto
  obtain r1 w1' tr1 where
    rec: "withRetry_loop config rnd operation (Suc attempt) e w1 = (r1, w1', tr1)"
    using prod_cases3 by blast
  from Suc.IH[OF a rec] have ih: "r1 = fst (operation (world_after operation k w1))"
      "w1' = world_after operation (Suc k) w1" "attempts tr1 = Suc k" by auto
  have "withRetry_loop config rnd operation attempt lastError w =
          (r1, w1', [Called, Logged e (Retry_attempt (attempt + 1) (cfg_maxRetries config)),
             OnRetry e (attempt + 1),
             Slept (calculateBackoffDelay attempt (cfg_baseDelay config)
                                   (cfg_maxDelay config) (rnd attempt))] @ tr1)"
    using w1 p ne rec by (subst withRetry_loop.simps) (simp add: logError_classified[OF l])
  with Suc.prems(2) have "r = r1" "w' = w1'" "attempts tr = Suc (attempts tr1)"
    by (auto simp add: attempts_def)
  with ih w1 show ?case by simp
qed

lemma withRetry_exhaust:
  assumes "always_fails_retryable (cfg_shouldRetry (merge_options options)) operation"
  shows "fst (withRetry options rnd operation w)
           = fst (operation (world_after operation (cfg_maxRetries (merge_options options)) w))
         \<and> fst (snd (withRetry options rnd operation w))
           = world_after operation (Suc (cfg_maxRetries (merge_options options))) w
         \<and> attempts (snd (snd (withRetry options rnd operation w)))
           = Suc (cfg_maxRetries (merge_options options))"
proof -
  obtain r w' tr where eq: "withRetry options rnd operation w = (r, w', tr)"
    using prod_cases3 by blast
  then have "withRetry_loop (merge_options options) rnd operation 0 Undefined w = (r, w', tr)"
    by (simp add: withRetry_def)
  from withRetry_loop_exhaust[OF assms _ this, of "cfg_maxRetries (merge_options options)"] eq
  show ?thesis by simp
qed



lemma svc_withRetry_3_exhaust:
  assumes "always_fails operation"
  shows "fst (svc_withRetry operation 3 d w) = fst (operation (world_after operation 2 w))
         \<and> fst (snd (svc_withRetry operation 3 d w)) = world_after operation 3 w
         \<and> attempts (snd (snd (svc_withRetry operation 3 d w))) = 3"
proof -
  obtain e1 w1 where 1: "operation w = (Inl e1, w1)"
    using assms unfolding always_fails_def by (metis prod.collapse)
  obtain e2 w2 where 2: "operation w1 = (Inl e2, w2)"
    using assms unfolding always_fails_def by (metis prod.collapse)
  obtain e3 w3 where 3: "operation w2 = (Inl e3, w3)"
    using assms unfolding always_fails_def by (metis prod.collapse)
  have w: "world_after operation 2 w = w2" "world_after operation 3 w = w3"
    using 1 2 3 by (simp_all add: numeral_2_eq_2 numeral_3_eq_3)
  show ?thesis
    unfolding w by (simp add: svc_withRetry_3 1 2 3 attempts_def)
qed

text \<open>The first run of the shared wrapper when the predicate declines, and when the
  predicate or \<^verbatim>\<open>logError\<close> throws: one call of the operation in each case.\<close>

lemma withRetry_loop_no_retry:
  assumes "operation w = (Inl e, w1)" "cfg_shouldRetry config e = Inr False"
    "\<not> isl (transformError e)"
  shows "withRetry_loop config rnd operation 0 lastError w =
          (Inl e, w1, [Called, Logged e (Operation_failed_after 1)])"
  using assms(1,2)
  by (subst withRetry_loop.simps) (simp add: logError_classified[OF assms(3)])

lemma withRetry_loop_predicate_throws:
  assumes "operation w = (Inl e, w1)" "cfg_shouldRetry config e = Inl thrown"
  shows "withRetry_loop config rnd operation 0 lastError w = (Inl thrown, w1, [Called])"
  using assms by (subst withRetry_loop.simps) simp

lemma withRetry_loop_logError_throws:
  assumes "operation w = (Inl e, w1)" "cfg_shouldRetry config e = Inr b"
    "transformError e = Inl thrown"
  shows "withRetry_loop config rnd operation 0 lastError w = (Inl thrown, w1, [Called])"
  using assms by (subst withRetry_loop.simps) (simp add: logError_def)

lemma withRetry_classifier_throws:
  assumes "operation w = (Inl e, w1)" "transformError e = Inl thrown"
  shows "withRetry \<lparr>opt_maxRetries = n, opt_baseDelay = b, opt_maxDelay = m,
                    opt_shouldRetry = None\<rparr> rnd operation w = (Inl thrown, w1, [Called])"
    and "withAuthRetry rnd operation w = (Inl thrown, w1, [Called])"
    and "withDatabaseRetry rnd operation w = (Inl thrown, w1, [Called])"
  unfolding withRetry_def withAuthRetry_def withDatabaseRetry_def createRetryWrapper_def
  by (rule withRetry_loop_predicate_throws[of operation w e w1, OF assms(1)],
      simp add: merge_options_def DEFAULT_RETRY_OPTIONS_def isNetworkError_def
        database_shouldRetry_def assms(2))+

text \<open>An error that one of the predicates of \<^verbatim>\<open>retry.ts\<close> accepts or declines is one
  that \<^verbatim>\<open>logError\<close> can classify: these predicates throw exactly when
  \<^verbatim>\<open>transformError\<close> does.\<close>

lemma isNetworkError_classified: "isNetworkError e = Inr b \<Longrightarrow> \<not> isl (transformError e)"
  by (cases "transformError e") (simp_all add: isNetworkError_def)

lemma database_shouldRetry_classified:
  "database_shouldRetry e = Inr b \<Longrightarrow> \<not> isl (transformError e)"
  by (cases "transformError e") (simp_all add: database_shouldRetry_def isNetworkError_def)

text \<open>The classes of two sample errors of the store.\<close>

lemma transformError_23505:
  "transformError (js_of (postgrest_error ''23505''))
     = Inr (SupabaseErr ''This record already exists.'' VALIDATION_ERROR
              (js_of (postgrest_error ''23505'')))"
  by (simp add: js_of_def raw_of_def postgrest_error_def transformPostgrestError_def truthy_def)

lemma transformError_PGRST301:
  "transformError (js_of (postgrest_error ''PGRST301''))
     = Inr (SupabaseErr (ERROR_MESSAGES PERMISSION_ERROR) PERMISSION_ERROR
              (js_of (postgrest_error ''PGRST301'')))"
  by (simp add: js_of_def raw_of_def postgrest_error_def transformPostgrestError_def truthy_def)

lemma database_shouldRetry_iff:
  "transformError e = Inr s \<Longrightarrow>
   database_shouldRetry e =
     Inr (se_type s = Some NETWORK_ERROR
          \<or> code_of e = ''PGRST301'' \<or> code_of e = ''08000'')"
  by (auto simp add: database_shouldRetry_def isNetworkError_def)

text \<open>\<^verbatim>\<open>withDatabaseRetry\<close> does retry a row-level-security denial, which is classified
  \<open>PERMISSION_ERROR\<close>: 4 runs.\<close>

lemma withDatabaseRetry_retries_PGRST301:
  "transformError (js_of (postgrest_error ''PGRST301''))
     = Inr (SupabaseErr (ERROR_MESSAGES PERMISSION_ERROR) PERMISSION_ERROR
              (js_of (postgrest_error ''PGRST301'')))
   \<and> attempts (snd (snd (withDatabaseRetry rnd
         (failing_operation (js_of (postgrest_error ''PGRST301''))) (0::nat)))) = 4"
proof -
  have t: "transformError (js_of (postgrest_error ''PGRST301''))
     = Inr (SupabaseErr (ERROR_MESSAGES PERMISSION_ERROR) PERMISSION_ERROR
              (js_of (postgrest_error ''PGRST301'')))"
    by (rule transformError_PGRST301)
  have "always_fails_retryable
          (cfg_shouldRetry (merge_options \<lparr>opt_maxRetries = Some 3, opt_baseDelay = Some 1000,
             opt_maxDelay = Some 5000, opt_shouldRetry = Some database_shouldRetry\<rparr>))
          (failing_operation (js_of (postgrest_error ''PGRST301'')))"
    by (simp add: always_fails_retryable_def failing_operation_def merge_options_def
          database_shouldRetry_iff[OF t] t)
       (simp add: js_of_def raw_of_def postgrest_error_def)
  from withRetry_exhaust [OF this, of rnd 0] t show ?thesis
    by (simp add: withDatabaseRetry_def createRetryWrapper_def merge_options_def)
qed

text \<open>What \<^verbatim>\<open>handleError\<close> throws for an error of the store.\<close>

lemma handleError_js_of:
  "handleError (js_of e) operation w =
     (new_Error (''Failed to '' @ operation @ '': '' @ or_else (Some (pg_message e)) ''Unknown error''),
      w\<lparr>console := console w @ [(js_of e, operation)]\<rparr>)"
  unfolding handleError_def logDatabaseError_js_of
  by (simp add: js_of_def raw_of_def)




text \<open>
  C4, as the claim states it, fails for the entity services: \<^verbatim>\<open>deleteTransaction\<close>
  against a store whose every request fails with a unique-constraint violation, which
  is classified \<open>VALIDATION_ERROR\<close>, calls its operation 3 times, not once.
\<close>

theorem C4_entity_service_counterexample:
  "transformError (js_of (postgrest_error ''23505''))
     = Inr (SupabaseErr ''This record already exists.'' VALIDATION_ERROR
              (js_of (postgrest_error ''23505'')))
   \<and> attempts (snd (snd (deleteTransaction ''t1''
         (empty_store (\<lambda>n. Some (postgrest_error ''23505'')))))) = 3
   \<and> requests (fst (snd (deleteTransaction ''t1''
         (empty_store (\<lambda>n. Some (postgrest_error ''23505'')))))) = 3
   \<and> attempts (snd (snd (deleteTransaction ''t1''
         (empty_store (\<lambda>n. Some (postgrest_error ''23505'')))))) \<noteq> 1"
  by (simp add: deleteTransaction_def svc_withRetry_3 deleteTransaction_op_def
        select_transaction_def request_def empty_store_def attempts_def handleError_js_of
        transformError_23505)

text \<open>
  C4 (amended): through the shared wrapper, an operation that fails with an error
  classified as anything but \<open>NETWORK_ERROR\<close> (so \<open>VALIDATION_ERROR\<close>,
  \<open>PERMISSION_ERROR\<close>, \<open>AUTH_ERROR\<close> or \<open>UNKNOWN_ERROR\<close>) is run exactly once by
  \<^verbatim>\<open>withRetry\<close> with the default predicate and by \<^verbatim>\<open>withAuthRetry\<close>, and exactly once by
  \<^verbatim>\<open>withDatabaseRetry\<close> unless its code is PGRST301 or 08000. The entity services' own
  \<^verbatim>\<open>withRetry\<close> has no predicate: an operation that keeps failing is run 3 times whatever
  the kind of error.
\<close>

theorem C4_no_retry_on_non_retryable:
  assumes "operation w = (Inl e, w1)"
    and "transformError e = Inr s" and "se_type s = Some k" and "k \<noteq> NETWORK_ERROR"
  shows "withRetry \<lparr>opt_maxRetries = n, opt_baseDelay = b, opt_maxDelay = m,
                    opt_shouldRetry = None\<rparr> rnd operation w
           = (Inl e, w1, [Called, Logged e (Operation_failed_after 1)])
         \<and> withAuthRetry rnd operation w
           = (Inl e, w1, [Called, Logged e (Operation_failed_after 1)])
         \<and> (code_of e \<noteq> ''PGRST301'' \<and> code_of e \<noteq> ''08000'' \<longrightarrow>
              withDatabaseRetry rnd operation w
                = (Inl e, w1, [Called, Logged e (Operation_failed_after 1)]))
         \<and> (always_fails operation \<longrightarrow>
              attempts (snd (snd (svc_withRetry operation 3 d w))) = 3)"
proof -
  have nn: "isNetworkError e = Inr False" using assms(2,3,4) by (simp add: isNetworkError_def)
  have l: "\<not> isl (transformError e)" using assms(2) by simp
  have 1: "withRetry \<lparr>opt_maxRetries = n, opt_baseDelay = b, opt_maxDelay = m,
                      opt_shouldRetry = None\<rparr> rnd operation w
             = (Inl e, w1, [Called, Logged e (Operation_failed_after 1)])"
    unfolding withRetry_def
    by (rule withRetry_loop_no_retry[of operation w e w1, OF assms(1) _ l])
       (simp add: merge_options_def DEFAULT_RETRY_OPTIONS_def nn)
  have 2: "withAuthRetry rnd operation w
             = (Inl e, w1, [Called, Logged e (Operation_failed_after 1)])"
    unfolding withAuthRetry_def createRetryWrapper_def withRetry_def
    by (rule withRetry_loop_no_retry[of operation w e w1, OF assms(1) _ l])
       (simp add: merge_options_def nn)
  have 3: "withDatabaseRetry rnd operation w
             = (Inl e, w1, [Called, Logged e (Operation_failed_after 1)])"
    if "code_of e \<noteq> ''PGRST301''" "code_of e \<noteq> ''08000''"
    unfolding withDatabaseRetry_def createRetryWrapper_def withRetry_def
    by (rule withRetry_loop_no_retry[of operation w e w1, OF assms(1) _ l])
       (simp add: merge_options_def database_shouldRetry_iff[OF assms(2)] assms(3,4) that)
  from 1 2 3 svc_withRetry_3_exhaust[of operation d w] show ?thesis by blast
qed

theorem C4_no_retry_on_non_retryable_witness:
  "transformError (js_of (postgrest_error ''23505''))
     = Inr (SupabaseErr ''This record already exists.'' VALIDATION_ERROR
              (js_of (postgrest_error ''23505'')))
   \<and> withDatabaseRetry (\<lambda>k. 0) (failing_operation (js_of (postgrest_error ''23505''))) 0
       = (Inl (js_of (postgrest_error ''23505'')), 1,
          [Called, Logged (js_of (postgrest_error ''23505'')) (Operation_failed_after 1)])
   \<and> attempts (snd (snd (svc_withRetry
         (failing_operation (js_of (postgrest_error ''23505''))) 3 1000 0))) = 3"
proof -
  have a: "failing_operation (js_of (postgrest_error ''23505'')) 0
             = (Inl (js_of (postgrest_error ''23505'')), 1)"
    by (simp add: failing_operation_def)
  have b: "transformError (js_of (postgrest_error ''23505''))
     = Inr (SupabaseErr ''This record already exists.'' VALIDATION_ERROR
              (js_of (postgrest_error ''23505'')))"
    by (rule transformError_23505)
  have c: "always_fails (failing_operation (js_of (postgrest_error ''23505'')))"
    by (simp add: always_fails_def failing_operation_def)
  have k: "se_type (SupabaseErr ''This record already exists.'' VALIDATION_ERROR
              (js_of (postgrest_error ''23505''))) = Some VALIDATION_ERROR"
    "VALIDATION_ERROR \<noteq> NETWORK_ERROR"
    "code_of (js_of (postgrest_error ''23505'')) \<noteq> ''PGRST301''"
    "code_of (js_of (postgrest_error ''23505'')) \<noteq> ''08000''"
    by (simp_all add: js_of_def raw_of_def postgrest_error_def)
  show ?thesis
    using C4_no_retry_on_non_retryable
            [of "failing_operation (js_of (postgrest_error ''23505''))" 0
                "js_of (postgrest_error ''23505'')" 1 _ VALIDATION_ERROR None None None
                "\<lambda>k. 0" 1000, OF a b k(1,2)] b c k(3,4)
    by simp
qed

subsection \<open>Transaction service\<close>

text \<open>One run of the body of \<^verbatim>\<open>createTransaction\<close>: when the insert fails, and when
  it succeeds, by the outcome of the secondary requests.\<close>

lemma or_zero_id [simp]: "or_zero x = x"
  by (simp add: or_zero_def)

lemma createTransaction_op_insert_fails:
  assumes "faults w (requests w) = Some e"
  shows "createTransaction_op d w = (Inl (js_of e), skip 1 w)"
  using assms
  by (simp add: createTransaction_op_def insert_transaction_def request_def skip_def)

lemma createTransaction_op_primary:
  assumes "faults w (requests w) = None"
  shows "fst (createTransaction_op d w) = Inr (Some (inserted_row d w))
         \<and> transactions (snd (createTransaction_op d w)) (new_id w (requests w))
             = Some (inserted_row d w)"
  using assms
  by (simp add: createTransaction_op_def insert_transaction_def select_category_def
        update_category_value_def request_def inserted_row_def Let_def
        split: option.splits prod.splits)

lemma createTransaction_op_fetch_fails:
  assumes "faults w (requests w) = None" "in_category_id d = Some cid" "cid \<noteq> []"
    "faults w (Suc (requests w)) = Some e"
  shows "console (snd (createTransaction_op d w))
           = console w @ [(js_of e, ''fetch category for transaction update'')]
         \<and> spending_categories (snd (createTransaction_op d w)) = spending_categories w"
  using assms
  by (simp add: createTransaction_op_def insert_transaction_def select_category_def
        request_def Let_def)

lemma createTransaction_op_update_fails:
  assumes "faults w (requests w) = None" "in_category_id d = Some cid" "cid \<noteq> []"
    "faults w (Suc (requests w)) = None" "spending_categories w cid = Some c"
    "faults w (Suc (Suc (requests w))) = Some e"
  shows "console (snd (createTransaction_op d w))
           = console w @ [(js_of e, ''update category value after transaction'')]
         \<and> spending_categories (snd (createTransaction_op d w)) = spending_categories w"
  using assms
  by (simp add: createTransaction_op_def insert_transaction_def select_category_def
        update_category_value_def request_def Let_def)

lemma createTransaction_op_isl:
  "isl (fst (createTransaction_op d w)) \<longleftrightarrow> faults w (requests w) \<noteq> None"
proof (cases "faults w (requests w)")
  case None
  then show ?thesis using createTransaction_op_primary[OF None, of d] by simp
next
  case (Some e)
  then show ?thesis by (simp add: createTransaction_op_insert_fails)
qed

text \<open>One run of the body of \<^verbatim>\<open>deleteTransaction\<close>, in the same way.\<close>

lemma deleteTransaction_op_select_fails:
  assumes "faults w (requests w) = Some e"
  shows "deleteTransaction_op ident w = (Inl (js_of e), skip 1 w)"
  using assms
  by (simp add: deleteTransaction_op_def select_transaction_def request_def skip_def)

lemma deleteTransaction_op_row_missing:
  assumes "faults w (requests w) = None" "transactions w ident = None"
  shows "deleteTransaction_op ident w = (Inl (js_of single_error), skip 1 w)"
  using assms
  by (simp add: deleteTransaction_op_def select_transaction_def request_def skip_def)

lemma deleteTransaction_op_delete_fails:
  assumes "faults w (requests w) = None" "transactions w ident = Some t"
    "faults w (Suc (requests w)) = Some e"
  shows "deleteTransaction_op ident w = (Inl (js_of e), skip 2 w)"
  using assms
  by (simp add: deleteTransaction_op_def select_transaction_def delete_transaction_def
        request_def skip_def)

lemma deleteTransaction_op_ok:
  assumes "transactions w ident = Some t" and "tx_category_id t = Some cid" and "cid \<noteq> []"
    and "spending_categories w cid = Some c"
    and "faults w (requests w) = None" and "faults w (Suc (requests w)) = None"
    and "faults w (Suc (Suc (requests w))) = None" and "faults w (Suc (Suc (Suc (requests w)))) = None"
  shows "deleteTransaction_op ident w =
     (Inr (), w\<lparr>requests := requests w + 4,
               transactions := (transactions w)(ident := None),
               spending_categories := (spending_categories w)
                 (cid \<mapsto> c\<lparr>cat_value := max 0 (cat_value c - tx_amount t), cat_updated_at := now w\<rparr>)\<rparr>)"
  using assms
  by (simp add: deleteTransaction_op_def select_transaction_def delete_transaction_def
        select_category_def update_category_value_def request_def)

lemma deleteTransaction_op_primary:
  assumes "transactions w ident = Some t"
    "faults w (requests w) = None" "faults w (Suc (requests w)) = None"
  shows "fst (deleteTransaction_op ident w) = Inr ()
         \<and> transactions (snd (deleteTransaction_op ident w)) ident = None"
  using assms
  by (simp add: deleteTransaction_op_def select_transaction_def delete_transaction_def
        select_category_def update_category_value_def request_def Let_def
        split: option.splits prod.splits)

lemma deleteTransaction_op_fetch_fails:
  assumes "transactions w ident = Some t"
    "faults w (requests w) = None" "faults w (Suc (requests w)) = None"
    "tx_category_id t = Some cid" "cid \<noteq> []"
    "faults w (Suc (Suc (requests w))) = Some e"
  shows "console (snd (deleteTransaction_op ident w))
           = console w @ [(js_of e, ''fetch category for transaction deletion'')]
         \<and> spending_categories (snd (deleteTransaction_op ident w)) = spending_categories w"
  using assms
  by (simp add: deleteTransaction_op_def select_transaction_def delete_transaction_def
        select_category_def request_def Let_def)

lemma deleteTransaction_op_update_fails:
  assumes "transactions w ident = Some t"
    "faults w (requests w) = None" "faults w (Suc (requests w)) = None"
    "tx_category_id t = Some cid" "cid \<noteq> []"
    "faults w (Suc (Suc (requests w))) = None" "spending_categories w cid = Some c"
    "faults w (Suc (Suc (Suc (requests w)))) = Some e"
  shows "console (snd (deleteTransaction_op ident w))
           = console w @ [(js_of e, ''update category value after transaction deletion'')]
         \<and> spending_categories (snd (deleteTransaction_op ident w)) = spending_categories w"
  using assms
  by (simp add: deleteTransaction_op_def select_transaction_def delete_transaction_def
        select_category_def update_category_value_def request_def Let_def)

lemma deleteTransaction_op_isl:
  "isl (fst (deleteTransaction_op ident w)) \<longleftrightarrow> primary_fails ident w"
proof (cases "faults w (requests w)")
  case (Some e)
  then show ?thesis by (simp add: deleteTransaction_op_select_fails primary_fails_def)
next
  case None
  show ?thesis
  proof (cases "transactions w ident")
    case n: None
    then show ?thesis using None by (simp add: deleteTransaction_op_row_missing primary_fails_def)
  next
    case t: (Some t)
    show ?thesis
    proof (cases "faults w (Suc (requests w))")
      case (Some e)
      then show ?thesis
        using None t by (simp add: deleteTransaction_op_delete_fails primary_fails_def)
    next
      case n: None
      then show ?thesis
        using None t deleteTransaction_op_primary[OF t None n]
        by (simp add: primary_fails_def)
    qed
  qed
qed

text \<open>The private \<^verbatim>\<open>withRetry\<close> with \<^verbatim>\<open>maxRetries\<close> = 3, by the first run that
  succeeds: it returns what that run returns, after that many failed runs; when three
  runs fail it raises the error of the third.\<close>

lemma world_after_Suc: "world_after operation (Suc k) w = snd (operation (world_after operation k w))"
  by (induction k arbitrary: w) simp_all

lemma svc_withRetry_3_success:
  assumes "k < 3" and "\<forall>i<k. isl (fst (operation (world_after operation i w)))"
    and "fst (operation (world_after operation k w)) = Inr v"
  shows "svc_withRetry operation 3 d w
           = (Inr v, snd (operation (world_after operation k w)),
              snd (snd (svc_withRetry operation 3 d w)))
         \<and> attempts (snd (snd (svc_withRetry operation 3 d w))) = Suc k"
proof -
  consider "k = 0" | "k = 1" | "k = 2" using assms(1) by linarith
  then show ?thesis
  proof cases
    case 1
    then obtain w1 where "operation w = (Inr v, w1)"
      using assms(3) by (cases "operation w") simp
    then show ?thesis using 1 by (simp add: svc_withRetry_3 attempts_def)
  next
    case 2
    have "isl (fst (operation w))" using assms(2)[rule_format, of 0] 2 by simp
    then obtain e1 w1 where a: "operation w = (Inl e1, w1)"
      by (cases "operation w"; cases "fst (operation w)") simp_all
    then obtain w2 where b: "operation w1 = (Inr v, w2)"
      using assms(3) 2 by (cases "operation w1") simp
    show ?thesis using 2 a b by (simp add: svc_withRetry_3 attempts_def)
  next
    case 3
    have "isl (fst (operation w))" using assms(2)[rule_format, of 0] 3 by simp
    then obtain e1 w1 where a: "operation w = (Inl e1, w1)"
      by (cases "operation w"; cases "fst (operation w)") simp_all
    have "isl (fst (operation (world_after operation 1 w)))"
      using assms(2)[rule_format, of 1] 3 by simp
    then obtain e2 w2 where b: "operation w1 = (Inl e2, w2)"
      using a by (cases "operation w1"; cases "fst (operation w1)") simp_all
    have "world_after operation 2 w = w2" using a b by (simp add: numeral_2_eq_2)
    then obtain w3 where c: "operation w2 = (Inr v, w3)"
      using assms(3) 3 by (cases "operation w2") simp
    show ?thesis
      using 3 a b c \<open>world_after operation 2 w = w2\<close> by (simp add: svc_withRetry_3 attempts_def)
  qed
qed

lemma svc_withRetry_3_failure:
  assumes "\<forall>i<3. isl (fst (operation (world_after operation i w)))"
  shows "svc_withRetry operation 3 d w
           = (fst (operation (world_after operation 2 w)), world_after operation 3 w,
              snd (snd (svc_withRetry operation 3 d w)))
         \<and> isl (fst (operation (world_after operation 2 w)))
         \<and> attempts (snd (snd (svc_withRetry operation 3 d w))) = 3"
proof -
  have "isl (fst (operation w))" using assms[rule_format, of 0] by simp
  then obtain e1 w1 where a: "operation w = (Inl e1, w1)"
    by (cases "operation w"; cases "fst (operation w)") simp_all
  have "isl (fst (operation (world_after operation 1 w)))"
    using assms[rule_format, of 1] by simp
  then obtain e2 w2 where b: "operation w1 = (Inl e2, w2)"
    using a by (cases "operation w1"; cases "fst (operation w1)") simp_all
  have u: "world_after operation 2 w = w2" using a b by (simp add: numeral_2_eq_2)
  have "isl (fst (operation (world_after operation 2 w)))"
    using assms[rule_format, of 2] by simp
  then obtain e3 w3 where c: "operation w2 = (Inl e3, w3)"
    using u by (cases "operation w2"; cases "fst (operation w2)") simp_all
  have u3: "world_after operation 3 w = w3" using a b c by (simp add: numeral_3_eq_3)
  show ?thesis using a b c u u3 by (simp add: svc_withRetry_3 attempts_def)
qed

text \<open>The world after \<open>i\<close> runs of the body of \<^verbatim>\<open>createTransaction\<close> whose inserts
  fail.\<close>

lemma skip_simps [simp]:
  "faults (skip k w) = faults w" "requests (skip k w) = requests w + k"
  "console (skip k w) = console w" "transactions (skip k w) = transactions w"
  "spending_categories (skip k w) = spending_categories w"
  "new_id (skip k w) = new_id w" "now (skip k w) = now w"
  "skip 0 w = w" "skip j (skip k w) = skip (k + j) w"
  by (simp_all add: skip_def)

lemma createTransaction_failed_runs:
  "\<forall>j<i. faults w (requests w + j) \<noteq> None \<Longrightarrow>
     world_after (createTransaction_op d) i w = skip i w"
proof (induction i arbitrary: w)
  case 0
  then show ?case by simp
next
  case (Suc i)
  from Suc.prems obtain e where e: "faults w (requests w) = Some e" by fastforce
  have "\<forall>j<i. faults (skip 1 w) (requests (skip 1 w) + j) \<noteq> None"
    using Suc.prems by (auto simp add: less_Suc_eq_0_disj)
  from Suc.IH[OF this] show ?case
    by (simp add: createTransaction_op_insert_fails[OF e])
qed

lemma createTransaction_runs:
  assumes "k < 3" and "\<forall>i<k. faults w (requests w + i) \<noteq> None"
    and "faults w (requests w + k) = None"
  shows "fst (createTransaction d w) = Inr (Some (inserted_row d (skip k w)))
         \<and> fst (snd (createTransaction d w)) = snd (createTransaction_op d (skip k w))
         \<and> attempts (snd (snd (createTransaction d w))) = Suc k"
proof -
  let ?op = "createTransaction_op d"
  have u: "world_after ?op i w = skip i w" if "i \<le> k" for i
    using that assms(2) by (intro createTransaction_failed_runs) simp
  have f: "\<forall>i<k. isl (fst (?op (world_after ?op i w)))"
    using assms(2) by (simp add: u createTransaction_op_isl)
  have s: "fst (?op (world_after ?op k w)) = Inr (Some (inserted_row d (skip k w)))"
    using assms(3) createTransaction_op_primary[of "skip k w" d] by (simp add: u)
  from svc_withRetry_3_success[OF assms(1) f s, of 1000] show ?thesis
    by (cases "svc_withRetry ?op 3 1000 w") (simp add: createTransaction_def u)
qed

lemma createTransaction_exhausted:
  assumes "\<forall>i<3. faults w (requests w + i) \<noteq> None" and "faults w (requests w + 2) = Some e"
  shows "createTransaction d w
           = (Inl (new_Error (''Failed to create transaction: ''
                              @ or_else (Some (pg_message e)) ''Unknown error'')),
              (skip 3 w)\<lparr>console := console w @ [(js_of e, ''create transaction'')]\<rparr>,
              snd (snd (createTransaction d w)))
         \<and> attempts (snd (snd (createTransaction d w))) = 3"
proof -
  let ?op = "createTransaction_op d"
  have u: "world_after ?op i w = skip i w" if "i \<le> 3" for i
    using that assms(1) by (intro createTransaction_failed_runs) simp
  have f: "\<forall>i<3. isl (fst (?op (world_after ?op i w)))"
    using assms(1) by (simp add: u createTransaction_op_isl)
  have e: "fst (?op (skip 2 w)) = Inl (js_of e)"
    using assms(2) by (simp add: createTransaction_op_insert_fails)
  from svc_withRetry_3_failure[OF f, of 1000] show ?thesis
    by (cases "svc_withRetry ?op 3 1000 w")
       (simp add: createTransaction_def u e handleError_js_of)
qed

lemma deleteTransaction_runs:
  assumes "k < 3"
    and "\<forall>i<k. primary_fails ident (world_after (deleteTransaction_op ident) i w)"
    and "\<not> primary_fails ident (world_after (deleteTransaction_op ident) k w)"
  shows "fst (deleteTransaction ident w) = Inr ()
         \<and> fst (snd (deleteTransaction ident w))
             = snd (deleteTransaction_op ident (world_after (deleteTransaction_op ident) k w))
         \<and> attempts (snd (snd (deleteTransaction ident w))) = Suc k"
proof -
  let ?op = "deleteTransaction_op ident"
  have f: "\<forall>i<k. isl (fst (?op (world_after ?op i w)))"
    using assms(2) by (simp add: deleteTransaction_op_isl)
  have "\<not> isl (fst (?op (world_after ?op k w)))"
    using assms(3) by (simp add: deleteTransaction_op_isl)
  then have s: "fst (?op (world_after ?op k w)) = Inr ()"
    by (cases "fst (?op (world_after ?op k w))") simp_all
  from svc_withRetry_3_success[OF assms(1) f s, of 1000] show ?thesis
    by (cases "svc_withRetry ?op 3 1000 w") (simp add: deleteTransaction_def)
qed

lemma deleteTransaction_op_error:
  "isl (fst (deleteTransaction_op ident w)) \<Longrightarrow>
     \<exists>e. fst (deleteTransaction_op ident w) = Inl (js_of e)"
  unfolding deleteTransaction_op_isl primary_fails_def
  by (cases "faults w (requests w)"; cases "transactions w ident";
      cases "faults w (Suc (requests w))")
     (auto simp add: deleteTransaction_op_select_fails deleteTransaction_op_row_missing
        deleteTransaction_op_delete_fails)

lemma deleteTransaction_exhausted:
  assumes "\<forall>i<3. primary_fails ident (world_after (deleteTransaction_op ident) i w)"
  shows "(\<exists>e. fst (deleteTransaction_op ident (world_after (deleteTransaction_op ident) 2 w))
                = Inl (js_of e)
              \<and> fst (deleteTransaction ident w)
                = Inl (new_Error (''Failed to delete transaction: ''
                                  @ or_else (Some (pg_message e)) ''Unknown error'')))
         \<and> attempts (snd (snd (deleteTransaction ident w))) = 3"
proof -
  let ?op = "deleteTransaction_op ident"
  have f: "\<forall>i<3. isl (fst (?op (world_after ?op i w)))"
    using assms by (simp add: deleteTransaction_op_isl)
  then have "isl (fst (?op (world_after ?op 2 w)))" by simp
  from deleteTransaction_op_error[OF this] obtain e where
    e: "fst (?op (world_after ?op 2 w)) = Inl (js_of e)" by blast
  have "fst (deleteTransaction ident w)
          = Inl (new_Error (''Failed to delete transaction: ''
                            @ or_else (Some (pg_message e)) ''Unknown error''))
        \<and> attempts (snd (snd (deleteTransaction ident w))) = 3"
    using svc_withRetry_3_failure[OF f, of 1000] e
    by (cases "svc_withRetry ?op 3 1000 w")
       (simp add: deleteTransaction_def handleError_js_of)
  with e show ?thesis by blast
qed

text \<open>
  C7, as the claim states it, fails: when the update of the category fails, the
  transaction of 45.25 is deleted, the call succeeds, and the total stays at 200.00.
\<close>

theorem C7_update_failure_counterexample:
  "fst (deleteTransaction ''t1'' (scenario_store (fails_at 3 network_failure))) = Inr ()
   \<and> transactions (fst (snd (deleteTransaction ''t1'' (scenario_store (fails_at 3 network_failure))))) ''t1'' = None
   \<and> map_option cat_value (spending_categories
        (fst (snd (deleteTransaction ''t1'' (scenario_store (fails_at 3 network_failure))))) ''c1'') = Some 200
   \<and> max 0 (200 - 45.25) = (154.75::real)"
  by (simp add: deleteTransaction_def svc_withRetry_3 deleteTransaction_op_def
        select_transaction_def delete_transaction_def select_category_def update_category_value_def
        request_def scenario_store_def fails_at_def lunch_def groceries_def)

text \<open>
  C7 (amended): for every deletion of a transaction linked to a category in which the
  four requests succeed (fetching and deleting the transaction, fetching and updating
  the category), the category's running total afterwards equals
  \<open>max 0 (previous total - amount)\<close>, which is never negative; deleting a 45.25
  transaction from a category with total 200.00 yields 154.75.
\<close>

theorem C7_delete_adjusts_category_total:
  assumes "transactions w ident = Some t" and "tx_category_id t = Some cid" and "cid \<noteq> []"
    and "spending_categories w cid = Some c"
    and "faults w (requests w) = None" and "faults w (Suc (requests w)) = None"
    and "faults w (Suc (Suc (requests w))) = None"
    and "faults w (Suc (Suc (Suc (requests w)))) = None"
  shows "fst (deleteTransaction ident w) = Inr ()
         \<and> transactions (fst (snd (deleteTransaction ident w))) ident = None
         \<and> map_option cat_value (spending_categories (fst (snd (deleteTransaction ident w))) cid)
             = Some (max 0 (cat_value c - tx_amount t))
         \<and> (\<exists>c'. spending_categories (fst (snd (deleteTransaction ident w))) cid = Some c'
                \<and> 0 \<le> cat_value c')"
  by (simp add: deleteTransaction_def svc_withRetry_3 deleteTransaction_op_ok[OF assms])

theorem C7_delete_adjusts_category_total_witness:
  "fst (deleteTransaction ''t1'' (scenario_store (\<lambda>n. None))) = Inr ()
   \<and> transactions (fst (snd (deleteTransaction ''t1'' (scenario_store (\<lambda>n. None))))) ''t1'' = None
   \<and> map_option cat_value
        (spending_categories (fst (snd (deleteTransaction ''t1'' (scenario_store (\<lambda>n. None))))) ''c1'')
       = Some 154.75"
  using C7_delete_adjusts_category_total[of "scenario_store (\<lambda>n. None)" "''t1''" lunch "''c1''" groceries]
  by (simp add: scenario_store_def lunch_def groceries_def)

lemma createTransaction_op_category_missing:
  assumes "faults w (requests w) = None" "in_category_id d = Some cid" "cid \<noteq> []"
    "faults w (Suc (requests w)) = None" "spending_categories w cid = None"
  shows "console (snd (createTransaction_op d w))
           = console w @ [(js_of single_error, ''fetch category for transaction update'')]
         \<and> spending_categories (snd (createTransaction_op d w)) = spending_categories w"
  using assms
  by (simp add: createTransaction_op_def insert_transaction_def select_category_def
        request_def Let_def)

lemma deleteTransaction_op_category_missing:
  assumes "transactions w ident = Some t"
    "faults w (requests w) = None" "faults w (Suc (requests w)) = None"
    "tx_category_id t = Some cid" "cid \<noteq> []"
    "faults w (Suc (Suc (requests w))) = None" "spending_categories w cid = None"
  shows "console (snd (deleteTransaction_op ident w))
           = console w @ [(js_of single_error, ''fetch category for transaction deletion'')]
         \<and> spending_categories (snd (deleteTransaction_op ident w)) = spending_categories w"
  using assms
  by (simp add: deleteTransaction_op_def select_transaction_def delete_transaction_def
        select_category_def request_def Let_def)

text \<open>
  C8, for every create and every delete, in every state of the store.

  One run of the body of \<^verbatim>\<open>createTransaction\<close> fails exactly when the insert fails,
  with the error of the insert and nothing stored. When the insert succeeds the run
  returns the created transaction whatever the category fetch and update do; a failure
  of the fetch (an error, or no such category) or of the update is written to the log
  and leaves the categories as they were. \<^verbatim>\<open>createTransaction\<close> returns what the first
  of at most three runs whose insert succeeds returns, in the world that run leaves;
  it rejects only when the insert fails three times, with an error built from the third
  insert error.

  The same holds of \<^verbatim>\<open>deleteTransaction\<close>, whose primary requests are the fetch and
  the delete of the transaction: a run fails exactly when one of them fails, and
  \<^verbatim>\<open>deleteTransaction\<close> completes with the first of at most three runs in which both
  succeed, whatever the category fetch and update of that run do.

  So no failure of the category fetch or update makes a run fail, causes a retry, or
  reaches the caller.
\<close>

theorem C8_secondary_failure_swallowed:
  "(\<forall>e. faults w (requests w) = Some e \<longrightarrow>
        createTransaction_op d w = (Inl (js_of e), skip 1 w))
   \<and> (faults w (requests w) = None \<longrightarrow>
        fst (createTransaction_op d w) = Inr (Some (inserted_row d w))
        \<and> transactions (snd (createTransaction_op d w)) (new_id w (requests w))
            = Some (inserted_row d w)
        \<and> (\<forall>cid e. in_category_id d = Some cid \<and> cid \<noteq> []
               \<and> faults w (Suc (requests w)) = Some e \<longrightarrow>
               console (snd (createTransaction_op d w))
                 = console w @ [(js_of e, ''fetch category for transaction update'')]
               \<and> spending_categories (snd (createTransaction_op d w))
                   = spending_categories w)
        \<and> (\<forall>cid. in_category_id d = Some cid \<and> cid \<noteq> []
               \<and> faults w (Suc (requests w)) = None \<and> spending_categories w cid = None \<longrightarrow>
               console (snd (createTransaction_op d w))
                 = console w
                   @ [(js_of single_error, ''fetch category for transaction update'')]
               \<and> spending_categories (snd (createTransaction_op d w))
                   = spending_categories w)
        \<and> (\<forall>cid c e. in_category_id d = Some cid \<and> cid \<noteq> []
               \<and> faults w (Suc (requests w)) = None \<and> spending_categories w cid = Some c
               \<and> faults w (Suc (Suc (requests w))) = Some e \<longrightarrow>
               console (snd (createTransaction_op d w))
                 = console w @ [(js_of e, ''update category value after transaction'')]
               \<and> spending_categories (snd (createTransaction_op d w))
                   = spending_categories w))
   \<and> (k < 3 \<and> (\<forall>i<k. faults w (requests w + i) \<noteq> None)
        \<and> faults w (requests w + k) = None \<longrightarrow>
        fst (createTransaction d w) = Inr (Some (inserted_row d (skip k w)))
        \<and> fst (snd (createTransaction d w)) = snd (createTransaction_op d (skip k w))
        \<and> attempts (snd (snd (createTransaction d w))) = Suc k)
   \<and> (\<forall>e. (\<forall>i<3. faults w (requests w + i) \<noteq> None)
          \<and> faults w (requests w + 2) = Some e \<longrightarrow>
        fst (createTransaction d w)
          = Inl (new_Error (''Failed to create transaction: ''
                            @ or_else (Some (pg_message e)) ''Unknown error''))
        \<and> fst (snd (createTransaction d w))
            = (skip 3 w)\<lparr>console := console w @ [(js_of e, ''create transaction'')]\<rparr>
        \<and> attempts (snd (snd (createTransaction d w))) = 3)
   \<and> (\<forall>e. faults w (requests w) = Some e \<longrightarrow>
        deleteTransaction_op ident w = (Inl (js_of e), skip 1 w))
   \<and> (faults w (requests w) = None \<and> transactions w ident = None \<longrightarrow>
        deleteTransaction_op ident w = (Inl (js_of single_error), skip 1 w))
   \<and> (\<forall>e. faults w (requests w) = None \<and> transactions w ident = Some t
          \<and> faults w (Suc (requests w)) = Some e \<longrightarrow>
        deleteTransaction_op ident w = (Inl (js_of e), skip 2 w))
   \<and> (transactions w ident = Some t \<and> faults w (requests w) = None
        \<and> faults w (Suc (requests w)) = None \<longrightarrow>
        fst (deleteTransaction_op ident w) = Inr ()
        \<and> transactions (snd (deleteTransaction_op ident w)) ident = None
        \<and> (\<forall>cid e. tx_category_id t = Some cid \<and> cid \<noteq> []
               \<and> faults w (Suc (Suc (requests w))) = Some e \<longrightarrow>
               console (snd (deleteTransaction_op ident w))
                 = console w @ [(js_of e, ''fetch category for transaction deletion'')]
               \<and> spending_categories (snd (deleteTransaction_op ident w))
                   = spending_categories w)
        \<and> (\<forall>cid. tx_category_id t = Some cid \<and> cid \<noteq> []
               \<and> faults w (Suc (Suc (requests w))) = None
               \<and> spending_categories w cid = None \<longrightarrow>
               console (snd (deleteTransaction_op ident w))
                 = console w
                   @ [(js_of single_error, ''fetch category for transaction deletion'')]
               \<and> spending_categories (snd (deleteTransaction_op ident w))
                   = spending_categories w)
        \<and> (\<forall>cid c e. tx_category_id t = Some cid \<and> cid \<noteq> []
               \<and> faults w (Suc (Suc (requests w))) = None
               \<and> spending_categories w cid = Some c
               \<and> faults w (Suc (Suc (Suc (requests w)))) = Some e \<longrightarrow>
               console (snd (deleteTransaction_op ident w))
                 = console w
                   @ [(js_of e, ''update category value after transaction deletion'')]
               \<and> spending_categories (snd (deleteTransaction_op ident w))
                   = spending_categories w))
   \<and> (k < 3
        \<and> (\<forall>i<k. primary_fails ident (world_after (deleteTransaction_op ident) i w))
        \<and> \<not> primary_fails ident (world_after (deleteTransaction_op ident) k w) \<longrightarrow>
        fst (deleteTransaction ident w) = Inr ()
        \<and> fst (snd (deleteTransaction ident w))
            = snd (deleteTransaction_op ident (world_after (deleteTransaction_op ident) k w))
        \<and> attempts (snd (snd (deleteTransaction ident w))) = Suc k)
   \<and> ((\<forall>i<3. primary_fails ident (world_after (deleteTransaction_op ident) i w)) \<longrightarrow>
        (\<exists>e. fst (deleteTransaction_op ident (world_after (deleteTransaction_op ident) 2 w))
                = Inl (js_of e)
              \<and> fst (deleteTransaction ident w)
                = Inl (new_Error (''Failed to delete transaction: ''
                                  @ or_else (Some (pg_message e)) ''Unknown error'')))
        \<and> attempts (snd (snd (deleteTransaction ident w))) = 3)"
proof -
  have c1: "\<forall>e. faults w (requests w) = Some e \<longrightarrow>
        createTransaction_op d w = (Inl (js_of e), skip 1 w)"
    by (simp add: createTransaction_op_insert_fails)
  have c2: "fst (createTransaction_op d w) = Inr (Some (inserted_row d w))
        \<and> transactions (snd (createTransaction_op d w)) (new_id w (requests w))
            = Some (inserted_row d w)
        \<and> (\<forall>cid e. in_category_id d = Some cid \<and> cid \<noteq> []
               \<and> faults w (Suc (requests w)) = Some e \<longrightarrow>
               console (snd (createTransaction_op d w))
                 = console w @ [(js_of e, ''fetch category for transaction update'')]
               \<and> spending_categories (snd (createTransaction_op d w))
                   = spending_categories w)
        \<and> (\<forall>cid. in_category_id d = Some cid \<and> cid \<noteq> []
               \<and> faults w (Suc (requests w)) = None \<and> spending_categories w cid = None \<longrightarrow>
               console (snd (createTransaction_op d w))
                 = console w
                   @ [(js_of single_error, ''fetch category for transaction update'')]
               \<and> spending_categories (snd (createTransaction_op d w))
                   = spending_categories w)
        \<and> (\<forall>cid c e. in_category_id d = Some cid \<and> cid \<noteq> []
               \<and> faults w (Suc (requests w)) = None \<and> spending_categories w cid = Some c
               \<and> faults w (Suc (Suc (requests w))) = Some e \<longrightarrow>
               console (snd (createTransaction_op d w))
                 = console w @ [(js_of e, ''update category value after transaction'')]
               \<and> spending_categories (snd (createTransaction_op d w))
                   = spending_categories w)"
    if f: "faults w (requests w) = None"
    using createTransaction_op_primary[OF f, of d] createTransaction_op_fetch_fails[OF f, of d]
      createTransaction_op_category_missing[OF f, of d]
      createTransaction_op_update_fails[OF f, of d]
    by blast
  have c3: "fst (createTransaction d w) = Inr (Some (inserted_row d (skip k w)))
        \<and> fst (snd (createTransaction d w)) = snd (createTransaction_op d (skip k w))
        \<and> attempts (snd (snd (createTransaction d w))) = Suc k"
    if "k < 3" "\<forall>i<k. faults w (requests w + i) \<noteq> None" "faults w (requests w + k) = None"
    using that by (rule createTransaction_runs)
  have c4: "fst (createTransaction d w)
          = Inl (new_Error (''Failed to create transaction: ''
                            @ or_else (Some (pg_message e)) ''Unknown error''))
        \<and> fst (snd (createTransaction d w))
            = (skip 3 w)\<lparr>console := console w @ [(js_of e, ''create transaction'')]\<rparr>
        \<and> attempts (snd (snd (createTransaction d w))) = 3"
    if "\<forall>i<3. faults w (requests w + i) \<noteq> None" "faults w (requests w + 2) = Some e" for e
    using createTransaction_exhausted[OF that, of d]
    by (cases "createTransaction d w") simp
  have d1: "\<forall>e. faults w (requests w) = Some e \<longrightarrow>
        deleteTransaction_op ident w = (Inl (js_of e), skip 1 w)"
    by (simp add: deleteTransaction_op_select_fails)
  have d2: "deleteTransaction_op ident w = (Inl (js_of single_error), skip 1 w)"
    if "faults w (requests w) = None" "transactions w ident = None"
    using that by (rule deleteTransaction_op_row_missing)
  have d3: "deleteTransaction_op ident w = (Inl (js_of e), skip 2 w)"
    if "faults w (requests w) = None" "transactions w ident = Some t"
      "faults w (Suc (requests w)) = Some e" for e
    using that by (rule deleteTransaction_op_delete_fails)
  have d4: "fst (deleteTransaction_op ident w) = Inr ()
        \<and> transactions (snd (deleteTransaction_op ident w)) ident = None
        \<and> (\<forall>cid e. tx_category_id t = Some cid \<and> cid \<noteq> []
               \<and> faults w (Suc (Suc (requests w))) = Some e \<longrightarrow>
               console (snd (deleteTransaction_op ident w))
                 = console w @ [(js_of e, ''fetch category for transaction deletion'')]
               \<and> spending_categories (snd (deleteTransaction_op ident w))
                   = spending_categories w)
        \<and> (\<forall>cid. tx_category_id t = Some cid \<and> cid \<noteq> []
               \<and> faults w (Suc (Suc (requests w))) = None
               \<and> spending_categories w cid = None \<longrightarrow>
               console (snd (deleteTransaction_op ident w))
                 = console w
                   @ [(js_of single_error, ''fetch category for transaction deletion'')]
               \<and> spending_categories (snd (deleteTransaction_op ident w))
                   = spending_categories w)
        \<and> (\<forall>cid c e. tx_category_id t = Some cid \<and> cid \<noteq> []
               \<and> faults w (Suc (Suc (requests w))) = None
               \<and> spending_categories w cid = Some c
               \<and> faults w (Suc (Suc (Suc (requests w)))) = Some e \<longrightarrow>
               console (snd (deleteTransaction_op ident w))
                 = console w
                   @ [(js_of e, ''update category value after transaction deletion'')]
               \<and> spending_categories (snd (deleteTransaction_op ident w))
                   = spending_categories w)"
    if a: "transactions w ident = Some t" "faults w (requests w) = None"
      "faults w (Suc (requests w)) = None"
    using deleteTransaction_op_primary[OF a] deleteTransaction_op_fetch_fails[OF a]
      deleteTransaction_op_category_missing[OF a] deleteTransaction_op_update_fails[OF a]
    by blast
  have d5: "fst (deleteTransaction ident w) = Inr ()
        \<and> fst (snd (deleteTransaction ident w))
            = snd (deleteTransaction_op ident (world_after (deleteTransaction_op ident) k w))
        \<and> attempts (snd (snd (deleteTransaction ident w))) = Suc k"
    if "k < 3" "\<forall>i<k. primary_fails ident (world_after (deleteTransaction_op ident) i w)"
      "\<not> primary_fails ident (world_after (deleteTransaction_op ident) k w)"
    using that by (rule deleteTransaction_runs)
  have d6: "(\<exists>e. fst (deleteTransaction_op ident (world_after (deleteTransaction_op ident) 2 w))
                = Inl (js_of e)
              \<and> fst (deleteTransaction ident w)
                = Inl (new_Error (''Failed to delete transaction: ''
                                  @ or_else (Some (pg_message e)) ''Unknown error'')))
        \<and> attempts (snd (snd (deleteTransaction ident w))) = 3"
    if "\<forall>i<3. primary_fails ident (world_after (deleteTransaction_op ident) i w)"
    using that by (rule deleteTransaction_exhausted)
  show ?thesis
    apply (intro conjI)
    subgoal by (rule c1)
    subgoal using c2 by blast
    subgoal using c3 by blast
    subgoal using c4 by blast
    subgoal by (rule d1)
    subgoal using d2 by blast
    subgoal using d3 by blast
    subgoal using d4 by blast
    subgoal using d5 by blast
    subgoal using d6 by blast
    done
qed

theorem C8_secondary_failure_swallowed_witness:
  "fst (createTransaction coffee (flaky_store 2))
     = Inr (Some (inserted_row coffee (skip 1 (flaky_store 2))))
   \<and> attempts (snd (snd (createTransaction coffee (flaky_store 2)))) = 2
   \<and> console (fst (snd (createTransaction coffee (flaky_store 2))))
       = [(js_of network_failure, ''fetch category for transaction update'')]
   \<and> fst (deleteTransaction ''t1'' (flaky_store 4)) = Inr ()
   \<and> attempts (snd (snd (deleteTransaction ''t1'' (flaky_store 4)))) = 2
   \<and> transactions (fst (snd (deleteTransaction ''t1'' (flaky_store 4)))) ''t1'' = None
   \<and> console (fst (snd (deleteTransaction ''t1'' (flaky_store 4))))
       = [(js_of network_failure, ''update category value after transaction deletion'')]"
proof -
  let ?w = "flaky_store 2"
  let ?v = "flaky_store 4"
  let ?op = "deleteTransaction_op ''t1''"
  have w: "requests ?w = 0" "console ?w = []" "faults ?w 0 = Some network_failure"
    "faults ?w (Suc 0) = None" "faults ?w (Suc (Suc 0)) = Some network_failure"
    by (simp_all add: flaky_store_def scenario_store_def fails_at_def)
  have v: "requests ?v = 0" "console ?v = []" "faults ?v 0 = Some network_failure"
    "faults ?v (Suc 0) = None" "faults ?v (Suc (Suc 0)) = None"
    "faults ?v (Suc (Suc (Suc 0))) = None"
    "faults ?v (Suc (Suc (Suc (Suc 0)))) = Some network_failure"
    "transactions ?v ''t1'' = Some lunch" "spending_categories ?v ''c1'' = Some groceries"
    by (simp_all add: flaky_store_def scenario_store_def fails_at_def)
  have c: "in_category_id coffee = Some ''c1''" "tx_category_id lunch = Some ''c1''"
    "''c1'' \<noteq> []"
    by (simp_all add: coffee_def lunch_def)
  have h1: "(1::nat) < 3 \<and> (\<forall>i<1. faults ?w (requests ?w + i) \<noteq> None)
            \<and> faults ?w (requests ?w + 1) = None"
    using w by simp
  have r1: "fst (createTransaction coffee ?w) = Inr (Some (inserted_row coffee (skip 1 ?w)))
        \<and> fst (snd (createTransaction coffee ?w)) = snd (createTransaction_op coffee (skip 1 ?w))
        \<and> attempts (snd (snd (createTransaction coffee ?w))) = Suc 1"
    using C8_secondary_failure_swallowed
            [where w = ?w and d = coffee and k = 1, THEN conjunct2, THEN conjunct2, THEN conjunct1, THEN mp, OF h1]
    by simp
  have h2: "faults (skip 1 ?w) (requests (skip 1 ?w)) = None"
    "in_category_id coffee = Some ''c1'' \<and> ''c1'' \<noteq> []
       \<and> faults (skip 1 ?w) (Suc (requests (skip 1 ?w))) = Some network_failure"
    using w c by simp_all
  have r2: "console (snd (createTransaction_op coffee (skip 1 ?w)))
              = console (skip 1 ?w)
                @ [(js_of network_failure, ''fetch category for transaction update'')]"
    using C8_secondary_failure_swallowed
            [where w = "skip 1 ?w" and d = coffee, THEN conjunct2, THEN conjunct1, THEN mp, OF h2(1),
             THEN conjunct2, THEN conjunct2, THEN conjunct1, rule_format,
             of "''c1''" network_failure, OF h2(2)]
    by simp
  have u: "world_after ?op 1 ?v = skip 1 ?v"
    using v by (simp add: deleteTransaction_op_select_fails)
  have h3: "(1::nat) < 3 \<and> (\<forall>i<1. primary_fails ''t1'' (world_after ?op i ?v))
            \<and> \<not> primary_fails ''t1'' (world_after ?op 1 ?v)"
    unfolding u using v by (simp add: primary_fails_def)
  have r3: "fst (deleteTransaction ''t1'' ?v) = Inr ()
        \<and> fst (snd (deleteTransaction ''t1'' ?v)) = snd (?op (world_after ?op 1 ?v))
        \<and> attempts (snd (snd (deleteTransaction ''t1'' ?v))) = Suc 1"
    using C8_secondary_failure_swallowed
            [where w = ?v and ident = "''t1''" and k = 1,
             THEN conjunct2, THEN conjunct2, THEN conjunct2, THEN conjunct2, THEN conjunct2, THEN conjunct2, THEN conjunct2, THEN conjunct2, THEN conjunct1, THEN mp, OF h3]
    by simp
  have h4: "transactions (skip 1 ?v) ''t1'' = Some lunch
            \<and> faults (skip 1 ?v) (requests (skip 1 ?v)) = None
            \<and> faults (skip 1 ?v) (Suc (requests (skip 1 ?v))) = None"
    "tx_category_id lunch = Some ''c1'' \<and> ''c1'' \<noteq> []
       \<and> faults (skip 1 ?v) (Suc (Suc (requests (skip 1 ?v)))) = None
       \<and> spending_categories (skip 1 ?v) ''c1'' = Some groceries
       \<and> faults (skip 1 ?v) (Suc (Suc (Suc (requests (skip 1 ?v))))) = Some network_failure"
    using v c by simp_all
  have r4: "transactions (snd (?op (skip 1 ?v))) ''t1'' = None
        \<and> console (snd (?op (skip 1 ?v)))
            = console (skip 1 ?v)
              @ [(js_of network_failure, ''update category value after transaction deletion'')]"
    using C8_secondary_failure_swallowed
            [where w = "skip 1 ?v" and ident = "''t1''" and t = lunch,
             THEN conjunct2, THEN conjunct2, THEN conjunct2, THEN conjunct2, THEN conjunct2, THEN conjunct2, THEN conjunct2, THEN conjunct1, THEN mp, OF h4(1), THEN conjunct2, THEN conjunct1]
      C8_secondary_failure_swallowed
            [where w = "skip 1 ?v" and ident = "''t1''" and t = lunch,
             THEN conjunct2, THEN conjunct2, THEN conjunct2, THEN conjunct2, THEN conjunct2, THEN conjunct2, THEN conjunct2, THEN conjunct1, THEN mp, OF h4(1), THEN conjunct2, THEN conjunct2, THEN conjunct2,
             THEN conjunct2, rule_format, of "''c1''" groceries network_failure, OF h4(2)]
    by simp
  show ?thesis
    using r1 r2 r3 r4 u w(2) v(2) by simp
qed

subsection \<open>Local cache\<close>










subsection \<open>Offline gate\<close>

text \<open>The mutations that do consult \<^verbatim>\<open>navigator.onLine\<close> reject before anything else
  happens: no callback is called, the service is not called, no state changes.\<close>

lemma offline_gate:
  assumes "offline env"
  shows "updateCategoryMutation env f g svc ident updates s
           = (Inl (new_Error
                ''You are offline. Please connect to the internet to update categories.''),
              s, [])"
    and "addContributionMutation env f' g' svc' goalId amount s'
           = (Inl (new_Error
                ''You are offline. Please connect to the internet to add contributions.''),
              s', [])"
    and "user env = Some uid \<Longrightarrow> uid \<noteq> [] \<Longrightarrow>
         addTransaction env a r create transaction s''
           = (Inl (new_Error
                ''You are offline. Please connect to the internet to add transactions.''),
              s'', [])"
  using assms
  by (simp_all add: updateCategoryMutation_def addContributionMutation_def addTransaction_def
        split: prod.splits)

text \<open>
  C1 at the failing input: with \<^verbatim>\<open>navigator.onLine\<close> false, \<^verbatim>\<open>updateGoalMutation\<close>
  applies the optimistic patch and calls the service, and
  \<^verbatim>\<open>deleteTransactionMutation\<close> calls the service; both resolve instead of rejecting.
\<close>

theorem C1_ungated_mutations_run_offline:
  "offline (browser False)
   \<and> updateGoalMutation (browser False) (Some (Goals_handleOptimisticUpdate [house]))
        (Some Goals_handleRollback) counting_ok ''g1'' new_title ([], 0, idle)
      = (Inr (), ([house\<lparr>goal_title := ''Flat''\<rparr>], 1, idle), [OptimisticPatch, RemoteCall])
   \<and> deleteTransactionMutation (browser False) (\<lambda>ident n. (Inr (), Suc n)) ''t1'' ((), 0, idle)
      = (Inr (), ((), 1, idle), [RemoteCall])"
  by (simp add: offline_def browser_def updateGoalMutation_def deleteTransactionMutation_def
        call_if_def Goals_handleOptimisticUpdate_def counting_ok_def idle_def house_def
        new_title_def spread_goal_def)

subsection \<open>Rollback\<close>

text \<open>What the hooks pass to the rollback callback when the service call fails: the
  update itself for a category, the negated amount for a contribution. The callbacks of
  \<^verbatim>\<open>AppContext.tsx\<close> do restore the list of optimistic transactions when no entry
  already carries the provisional id.\<close>

lemma updateCategoryMutation_rollback_argument:
  assumes "\<not> offline env" and "svc ident updates w = (Inl e, w1)"
  shows "fst (fst (snd (updateCategoryMutation env (Some f) (Some g) svc ident updates
                          (v, w, st))))
           = g ident updates (f ident updates v)"
  using assms by (simp add: updateCategoryMutation_def call_if_def)

lemma addContributionMutation_rollback_argument:
  assumes "\<not> offline env" and "svc goalId amount w = (Inl e, w1)"
  shows "fst (fst (snd (addContributionMutation env (Some f) (Some g) svc goalId amount
                          (v, w, st))))
           = g goalId (only_current_amount (- amount)) (f goalId (only_current_amount amount) v)"
  using assms by (simp add: addContributionMutation_def call_if_def)

lemma addTransaction_rollback_restores:
  assumes "\<not> offline env" and "user env = Some uid" and "uid \<noteq> []"
    and "\<forall>t \<in> set prev. tx_id t \<noteq> ''temp-'' @ Date_now env"
    and "fst (svc \<lparr>in_category_id = in_category_id transaction,
                   in_description = in_description transaction,
                   in_amount = in_amount transaction,
                   in_category_name = in_category_name transaction,
                   in_user_id = uid\<rparr> w) = Inl e"
  shows "fst (fst (snd (addTransaction env (Some AppContext_handleOptimisticAdd)
            (Some AppContext_handleRollback) svc transaction (prev, w, st)))) = prev"
  using assms
  by (auto simp add: addTransaction_def call_if_def AppContext_handleOptimisticAdd_def
        AppContext_handleRollback_def Let_def filter_id_conv split: prod.splits sum.splits)

text \<open>
  C2 at the failing input: with the service call failing, \<^verbatim>\<open>updateCategoryMutation\<close>
  with the callbacks of \<^verbatim>\<open>docs/OPTIMISTIC_UPDATES.md\<close> leaves the budget at the new
  value 300 instead of 500, and \<^verbatim>\<open>addContributionMutation\<close> of 30 with the callbacks of
  \<^verbatim>\<open>Goals.tsx\<close> leaves a goal whose amount was 100 displayed with 60.
\<close>

theorem C2_rollback_does_not_restore:
  "\<not> offline (browser True)
   \<and> fst (fst (snd (updateCategoryMutation (browser True) (Some doc_handleOptimisticUpdate)
        (Some doc_handleRollback) counting_fail ''c1'' new_budget ([groceries], 0, idle))))
      = [groceries\<lparr>cat_budget := 300\<rparr>]
   \<and> [groceries\<lparr>cat_budget := 300\<rparr>] \<noteq> [groceries]
   \<and> fst (fst (snd (addContributionMutation (browser True)
        (Some (Goals_handleOptimisticUpdate [house])) (Some Goals_handleRollback)
        counting_fail ''g1'' 30 ([], 0, idle))))
      = [house\<lparr>goal_current_amount := 60\<rparr>]
   \<and> Goals_goals [house] [house\<lparr>goal_current_amount := 60\<rparr>]
      = [house\<lparr>goal_current_amount := 60\<rparr>]
   \<and> Goals_goals [house] [] = [house]
   \<and> [house\<lparr>goal_current_amount := 60\<rparr>] \<noteq> [house]"
  by (simp add: offline_def browser_def updateCategoryMutation_def addContributionMutation_def
        call_if_def doc_handleOptimisticUpdate_def doc_handleRollback_def
        Goals_handleOptimisticUpdate_def Goals_handleRollback_def Goals_goals_def
        counting_fail_def idle_def house_def groceries_def new_budget_def spread_goal_def
        spread_category_def only_current_amount_def)

end
